theory Spec2Isabelle
  imports Main "HOL-Library.Sublist"
begin

section \<open>The world the reviewer runs in\<close>

text \<open>
  The program of \<^verbatim>\<open>gpt_reviewer/__main__.py\<close> reads a file, sends it to a remote chat
  service, parses the reply as XML, renders it into HTML and writes one file. Its effects
  are made explicit: every function that touches the file system, the logger or the
  network takes the world and returns the world it leaves behind, together with either its
  value or the exception it raised.

  A path is the list of its components as the operating system resolves it, so that
  \<^verbatim>\<open>os.path.join d name\<close> appends one component and the parents of a path are its proper
  prefixes. Text is \<^typ>\<open>string\<close>; the characters outside ASCII are their UTF-8 bytes, which
  never contain the byte of a line feed, so that splitting into lines and concatenation
  are the same on both readings.
\<close>

type_synonym path = "string list"

datatype error =
    FileNotFoundError string
  | NotADirectoryError
  | IsADirectoryError
  | FileExistsError
  | ParseError
  | TypeError
  | AttributeError
  | OpenAIError

record world =
  files :: "path \<rightharpoonup> string"
  dirs :: "path set"
  log_level :: nat
  records :: "(string \<times> string) list"
  requests :: "(string \<times> (string \<times> string) list) list"

text \<open>
  \<^const>\<open>files\<close> holds the regular files with their text as a text-mode \<^verbatim>\<open>open\<close> yields it,
  \<^const>\<open>dirs\<close> the directories, \<^const>\<open>log_level\<close> the level of the root logger,
  \<^const>\<open>records\<close> the lines the logger's handler has emitted (level name and message), and
  \<^const>\<open>requests\<close> every chat-completion request sent so far (model name and messages).
\<close>

subsection \<open>The logger\<close>

definition DEBUG :: nat where "DEBUG = 10"
definition INFO :: nat where "INFO = 20"
definition ERROR :: nat where "ERROR = 40"

definition setLevel :: "nat \<Rightarrow> world \<Rightarrow> world" where
  "setLevel lvl w = w\<lparr>log_level := lvl\<rparr>"

definition logger_log :: "nat \<Rightarrow> string \<Rightarrow> string \<Rightarrow> world \<Rightarrow> world" where
  "logger_log lvl levelname msg w =
     (if log_level w \<le> lvl then w\<lparr>records := records w @ [(levelname, msg)]\<rparr> else w)"

definition logger_debug :: "string \<Rightarrow> world \<Rightarrow> world" where
  "logger_debug msg w = logger_log DEBUG ''DEBUG'' msg w"

definition logger_info :: "string \<Rightarrow> world \<Rightarrow> world" where
  "logger_info msg w = logger_log INFO ''INFO'' msg w"

definition logger_error :: "string \<Rightarrow> world \<Rightarrow> world" where
  "logger_error msg w = logger_log ERROR ''ERROR'' msg w"

subsection \<open>Paths and the file system\<close>

fun path_str :: "path \<Rightarrow> string" where
  "path_str [] = ''''"
| "path_str [c] = c"
| "path_str (c # cs) = c @ ''/'' @ path_str cs"

text \<open>
  \<^verbatim>\<open>os.path.normpath\<close> rewrites a path into an equivalent spelling; on resolved paths it
  changes nothing.
\<close>

definition normpath :: "path \<Rightarrow> path" where
  "normpath p = p"

definition join :: "path \<Rightarrow> string \<Rightarrow> path" where
  "join d name = d @ [name]"

definition isfile :: "world \<Rightarrow> path \<Rightarrow> bool" where
  "isfile w p = (files w p \<noteq> None)"

text \<open>
  The empty list is the empty path, which names nothing: \<^verbatim>\<open>os.path.exists('')\<close> is false
  and \<^verbatim>\<open>os.makedirs('')\<close> raises. As the parent of a one-component path it stands for the
  directory in which relative paths start.
\<close>

definition path_exists :: "world \<Rightarrow> path \<Rightarrow> bool" where
  "path_exists w p = (p \<noteq> [] \<and> (p \<in> dirs w \<or> files w p \<noteq> None))"

text \<open>
  \<^verbatim>\<open>open(p, 'r')\<close> followed by reading: a directory cannot be opened, a missing file
  cannot be found.
\<close>

definition open_read :: "world \<Rightarrow> path \<Rightarrow> error + string" where
  "open_read w p =
     (case files w p of
        Some content \<Rightarrow> Inr content
      | None \<Rightarrow> if p \<in> dirs w then Inl IsADirectoryError
                else Inl (FileNotFoundError (path_str p)))"

text \<open>
  \<^verbatim>\<open>open(p, 'w')\<close> followed by one \<^verbatim>\<open>write\<close>: the file is created or truncated in an
  existing directory; the path of a directory cannot be written, and a parent that is a
  regular file or is missing makes the call fail.
\<close>

definition open_write :: "path \<Rightarrow> string \<Rightarrow> world \<Rightarrow> (error + unit) \<times> world" where
  "open_write p content w =
     (if p \<in> dirs w then (Inl IsADirectoryError, w)
      else if files w (butlast p) \<noteq> None then (Inl NotADirectoryError, w)
      else if butlast p \<notin> dirs w then (Inl (FileNotFoundError (path_str p)), w)
      else (Inr (), w\<lparr>files := (files w)(p \<mapsto> content)\<rparr>))"

text \<open>
  \<^verbatim>\<open>os.makedirs p\<close>: creates the directory and every missing parent. The call fails on
  the empty path and when the path exists already, and a regular file on the way makes it
  fail before anything is created.
\<close>

definition makedirs :: "path \<Rightarrow> world \<Rightarrow> (error + unit) \<times> world" where
  "makedirs p w =
     (if p = [] then (Inl (FileNotFoundError (path_str p)), w)
      else if p \<in> dirs w \<or> files w p \<noteq> None then (Inl FileExistsError, w)
      else if list_ex (\<lambda>q. files w q \<noteq> None) (prefixes p) then (Inl NotADirectoryError, w)
      else (Inr (), w\<lparr>dirs := dirs w \<union> set (prefixes p)\<rparr>))"

section \<open>The file loader\<close>

text \<open>
  \<^verbatim>\<open>file.readlines()\<close>: the text cut after every line feed, each line keeping its line
  feed; a last line without one is kept as it is.
\<close>

fun readlines :: "string \<Rightarrow> string list" where
  "readlines [] = []"
| "readlines (c # cs) =
     (if c = CHR 0x0A then [c] # readlines cs
      else (case readlines cs of [] \<Rightarrow> [[c]] | l # ls \<Rightarrow> (c # l) # ls))"

text \<open>The decimal numeral of a natural number, as \<^verbatim>\<open>str\<close> and an f-string print it.\<close>

definition digit_char :: "nat \<Rightarrow> char" where
  "digit_char d = ''0123456789'' ! d"

fun str_nat :: "nat \<Rightarrow> string" where
  "str_nat n =
     (if n < 10 then [digit_char n] else str_nat (n div 10) @ [digit_char (n mod 10)])"

declare str_nat.simps [simp del]

text \<open>The f-string \<^verbatim>\<open>f"{i + 1}: {line}"\<close> of the loader.\<close>

definition numbered :: "nat \<times> string \<Rightarrow> string" where
  "numbered = (\<lambda>(i, line). str_nat (i + 1) @ '': '' @ line)"

definition get_file :: "path \<Rightarrow> world \<Rightarrow> (error + string) \<times> world" where
  "get_file file_path w =
     (let normalized_path = normpath file_path in
      if \<not> isfile w normalized_path then
        (Inl (FileNotFoundError (''File '' @ path_str normalized_path @ '' not found'')),
         logger_error (''File '' @ path_str normalized_path @ '' not found'') w)
      else
        (case open_read w normalized_path of
           Inl e \<Rightarrow> (Inl e, w)
         | Inr content \<Rightarrow>
             (let lines = readlines content;
                  file_content_with_line_numbers = concat (map numbered (enumerate 0 lines))
              in (Inr file_content_with_line_numbers,
                  logger_info (''File '' @ path_str normalized_path @ '' loaded'') w))))"

section \<open>The review requester\<close>

text \<open>
  The client of the remote service is not part of the repository. It is a parameter: a
  client answers a request (a model name and the list of messages, each a role and a
  content) with the text of the first choice, or fails.
\<close>

type_synonym client = "string \<Rightarrow> (string \<times> string) list \<Rightarrow> error + string"

definition xml_template :: string where
  "xml_template =
     ''\<newline>'' @
     ''    <CodeReview>\<newline>'' @
     ''        <GeneralObservations>\<newline>'' @
     ''            <Observation>\<newline>'' @
     ''                General observations about the code's structure, style, programming practices, etc.\<newline>'' @
     ''            </Observation>\<newline>'' @
     ''            <!-- Additional general observations can be added here -->\<newline>'' @
     ''        </GeneralObservations>\<newline>'' @
     ''        <SpecificComments>\<newline>'' @
     ''            <Comment>\<newline>'' @
     ''                <Location> Specify the particular line or section of the code </Location>\<newline>'' @
     ''                <Feedback>\<newline>'' @
     ''                    Detailed comment regarding the specific line or section of the code\<newline>'' @
     ''                </Feedback>\<newline>'' @
     ''            </Comment>\<newline>'' @
     ''            <!-- Additional specific comments can be added here -->\<newline>'' @
     ''        </SpecificComments>\<newline>'' @
     ''        <ImprovementSuggestions>\<newline>'' @
     ''            <Suggestion>\<newline>'' @
     ''                Specific suggestions for improving the code\<newline>'' @
     ''            </Suggestion>\<newline>'' @
     ''            <!-- Additional suggestions for improvements can be added here -->\<newline>'' @
     ''        </ImprovementSuggestions>\<newline>'' @
     ''    </CodeReview>\<newline>'' @
     ''    ''"

definition system_content :: "string \<Rightarrow> string" where
  "system_content language =
     ''You are a program that reviews code and returns feedback in the specified XML format.'' @
     ''I ncluding specific examples of issues. Please use the provided XML template for your response. '' @
     ''The language of the review should be: '' @ language @ ''. The XML template is: ```'' @
     xml_template @ ''```''"

definition get_review :: "string \<Rightarrow> client \<Rightarrow> world \<Rightarrow> (error + string) \<times> world" where
  "get_review file_content open_ai_instance w =
     (let language = ''English'';
          messages = [(''system'', system_content language), (''user'', file_content)];
          w = w\<lparr>requests := requests w @ [(''gpt-3.5-turbo'', messages)]\<rparr>
      in (open_ai_instance ''gpt-3.5-turbo'' messages, w))"

section \<open>The report renderer\<close>

text \<open>
  An element of \<^verbatim>\<open>xml.etree.ElementTree\<close>: its tag, its text (\<^verbatim>\<open>None\<close> when the element
  has none) and its child elements in document order.
\<close>

datatype element = Element (el_tag: string) (el_text: "string option") (children: "element list")

text \<open>\<^verbatim>\<open>e.find(name)\<close>: the first child with that tag, or \<^verbatim>\<open>None\<close>.\<close>

definition find_el :: "string \<Rightarrow> element \<Rightarrow> element option" where
  "find_el name e = List.find (\<lambda>c. el_tag c = name) (children e)"

text \<open>What an f-string prints for an optional text: \<^verbatim>\<open>None\<close> prints as the word.\<close>

fun py_str :: "string option \<Rightarrow> string" where
  "py_str None = ''None''"
| "py_str (Some s) = s"

text \<open>
  The loops over observations and over suggestions have the same body:
  \<^verbatim>\<open>html_report += f"<li>{x.text}</li>"\<close>.
\<close>

fun render_texts :: "string \<Rightarrow> element list \<Rightarrow> string" where
  "render_texts html_report [] = html_report"
| "render_texts html_report (x # xs) =
     render_texts (html_report @ ''<li>'' @ py_str (el_text x) @ ''</li>'') xs"

text \<open>
  The loop over comments: \<^verbatim>\<open>comment.find('Location').text\<close> raises AttributeError when
  \<^verbatim>\<open>find\<close> returns \<^verbatim>\<open>None\<close>, the location being read first.
\<close>

fun render_comments :: "string \<Rightarrow> element list \<Rightarrow> error + string" where
  "render_comments html_report [] = Inr html_report"
| "render_comments html_report (comment # cs) =
     (case find_el ''Location'' comment of
        None \<Rightarrow> Inl AttributeError
      | Some l \<Rightarrow>
          (case find_el ''Feedback'' comment of
             None \<Rightarrow> Inl AttributeError
           | Some f \<Rightarrow>
               render_comments
                 (html_report @ ''<li><strong>'' @ py_str (el_text l) @ '':</strong> '' @
                    py_str (el_text f) @ ''</li>'') cs))"

text \<open>Iterating over the \<^verbatim>\<open>None\<close> that \<^verbatim>\<open>root.find\<close> returns raises TypeError.\<close>

definition add_content_to_html :: "string \<Rightarrow> element \<Rightarrow> error + string" where
  "add_content_to_html html_template root =
     (let html_report = html_template;
          html_report = html_report @ ''<h2>General Observations</h2><ul>''
      in case find_el ''GeneralObservations'' root of
           None \<Rightarrow> Inl TypeError
         | Some observations \<Rightarrow>
             (let html_report = render_texts html_report (children observations);
                  html_report = html_report @ ''</ul>'';
                  html_report = html_report @ ''<h2>Specific Comments</h2><ul>''
              in case find_el ''SpecificComments'' root of
                   None \<Rightarrow> Inl TypeError
                 | Some comments \<Rightarrow>
                     (case render_comments html_report (children comments) of
                        Inl e \<Rightarrow> Inl e
                      | Inr html_report \<Rightarrow>
                          (let html_report = html_report @ ''</ul>'';
                               html_report = html_report @ ''<h2>Improvement Suggestions</h2><ul>''
                           in case find_el ''ImprovementSuggestions'' root of
                                None \<Rightarrow> Inl TypeError
                              | Some suggestions \<Rightarrow>
                                  (let html_report = render_texts html_report (children suggestions);
                                       html_report = html_report @ ''</ul>'';
                                       html_report = html_report @ ''</div></body></html>''
                                   in Inr html_report)))))"

section \<open>The writer and the entry point\<close>

text \<open>
  What the program takes from outside the repository: the XML parser
  (\<^verbatim>\<open>ET.fromstring\<close>), the constructor of the client (\<^verbatim>\<open>OpenAI()\<close>, which may fail) and
  the directory of the program's own file.
\<close>

record platform =
  fromstring :: "string \<Rightarrow> error + element"
  OpenAI :: "error + client"
  file_dir :: path

definition html_template_path :: "platform \<Rightarrow> path" where
  "html_template_path pf = join (join (file_dir pf) ''templates'') ''code_review_template.html''"

definition generate_report :: "platform \<Rightarrow> string \<Rightarrow> path \<Rightarrow> world \<Rightarrow> (error + unit) \<times> world" where
  "generate_report pf review output_dir w =
     (case fromstring pf review of
        Inl e \<Rightarrow> (Inl e, w)
      | Inr root \<Rightarrow>
          (case open_read w (html_template_path pf) of
             Inl e \<Rightarrow> (Inl e, w)
           | Inr html_template \<Rightarrow>
               (case add_content_to_html html_template root of
                  Inl e \<Rightarrow> (Inl e, w)
                | Inr final_report \<Rightarrow>
                    (case (if \<not> path_exists w output_dir then makedirs output_dir w
                           else (Inr (), w)) of
                       (Inl e, w) \<Rightarrow> (Inl e, w)
                     | (Inr _, w) \<Rightarrow>
                         (let output_file = join output_dir ''code_review.html''
                          in case open_write output_file final_report w of
                               (Inl e, w) \<Rightarrow> (Inl e, w)
                             | (Inr _, w) \<Rightarrow>
                                 (Inr (),
                                  logger_info (''Report saved in '' @ path_str output_file) w))))))"

definition main :: "platform \<Rightarrow> path \<Rightarrow> path \<Rightarrow> world \<Rightarrow> (error + unit) \<times> world" where
  "main pf input_file output_dir w =
     (let w = logger_info ''Creating OpenAI client'' w
      in case OpenAI pf of
           Inl e \<Rightarrow> (Inl e, w)
         | Inr open_ai_client \<Rightarrow>
             (let w = logger_info ''Getting file content'' w
              in case get_file input_file w of
                   (Inl e, w) \<Rightarrow> (Inl e, w)
                 | (Inr file_content, w) \<Rightarrow>
                     (let w = logger_info ''Getting review'' w
                      in case get_review file_content open_ai_client w of
                           (Inl e, w) \<Rightarrow> (Inl e, w)
                         | (Inr review, w) \<Rightarrow>
                             (let w = logger_info ''Generating report'' w
                              in case generate_report pf review output_dir w of
                                   (Inl e, w) \<Rightarrow> (Inl e, w)
                                 | (Inr _, w) \<Rightarrow> (Inr (), logger_info ''Done'' w)))))"

text \<open>
  The script: the module sets the root logger to INFO, the parsed arguments are the input
  file, the output directory and the verbosity flag.
\<close>

definition run :: "platform \<Rightarrow> bool \<Rightarrow> path \<Rightarrow> path \<Rightarrow> world \<Rightarrow> (error + unit) \<times> world" where
  "run pf verbose input_file output_path w =
     (let w = setLevel INFO w;
          w = (if verbose then logger_debug ''Verbose mode activated'' (setLevel DEBUG w) else w)
      in main pf input_file output_path w)"

section \<open>Reading a numbered text back\<close>

text \<open>
  The inverse that the round trip of the loader is stated with: cut the numbered text into
  lines as \<^const>\<open>readlines\<close> does, take the prefix \<^verbatim>\<open>"{i+1}: "\<close> off the \<open>i\<close>-th line (there
  is no result when a line does not start with its number) and put the rest together.
\<close>

text \<open>
  The shape of what \<^const>\<open>readlines\<close> returns: no line is empty, a line feed stands only at
  the end of a line, and every line but the last ends with one.
\<close>

fun is_lines :: "string list \<Rightarrow> bool" where
  "is_lines [] = True"
| "is_lines [l] = (l \<noteq> [] \<and> CHR 0x0A \<notin> set (butlast l))"
| "is_lines (l # ls) =
     (l \<noteq> [] \<and> last l = CHR 0x0A \<and> CHR 0x0A \<notin> set (butlast l) \<and> is_lines ls)"

definition strip_number :: "nat \<times> string \<Rightarrow> string option" where
  "strip_number = (\<lambda>(i, line).
     (let p = str_nat (i + 1) @ '': ''
      in if prefix p line then Some (drop (length p) line) else None))"

definition unnumber :: "string \<Rightarrow> string option" where
  "unnumber s = map_option concat (those (map strip_number (enumerate 0 (readlines s))))"

section \<open>Line endings\<close>

text \<open>
  What a text-mode \<^verbatim>\<open>open\<close> makes of the content of a file before the program sees it:
  a carriage return followed by a line feed, and a carriage return alone, are read as one
  line feed. The text that \<^const>\<open>files\<close> holds for a file with the content \<open>raw\<close> is
  \<open>universal_newlines raw\<close>.
\<close>

fun universal_newlines :: "string \<Rightarrow> string" where
  "universal_newlines [] = []"
| "universal_newlines [c] = (if c = CHR 0x0D then [CHR 0x0A] else [c])"
| "universal_newlines (c # d # cs) =
     (if c = CHR 0x0D \<and> d = CHR 0x0A then CHR 0x0A # universal_newlines cs
      else if c = CHR 0x0D then CHR 0x0A # universal_newlines (d # cs)
      else c # universal_newlines (d # cs))"

section \<open>What a run leaves behind\<close>

text \<open>
  The effects of a run that outlive it, apart from the log: the files, the directories and
  the requests sent to the remote service.
\<close>

definition effects :: "world \<Rightarrow> (path \<rightharpoonup> string) \<times> path set \<times> (string \<times> (string \<times> string) list) list" where
  "effects w = (files w, dirs w, requests w)"

section \<open>Example documents\<close>

text \<open>
  The review of the specification's example (one observation, no comment, one suggestion),
  a review with a comment whose feedback holds markup characters, and a review in which
  some elements have no text.
\<close>

definition review_example :: element where
  "review_example =
     Element ''CodeReview'' None
       [Element ''GeneralObservations'' None [Element ''Observation'' (Some ''Good naming'') []],
        Element ''SpecificComments'' None [],
        Element ''ImprovementSuggestions'' None [Element ''Suggestion'' (Some ''Add tests'') []]]"

definition review_commented :: element where
  "review_commented =
     Element ''CodeReview'' None
       [Element ''GeneralObservations'' None [Element ''Observation'' (Some ''Good naming'') []],
        Element ''SpecificComments'' None
          [Element ''Comment'' None
             [Element ''Location'' (Some ''line 3'') [],
              Element ''Feedback'' (Some ''a < b & c is <b>odd</b>'') []]],
        Element ''ImprovementSuggestions'' None [Element ''Suggestion'' (Some ''Add tests'') []]]"

definition review_gaps :: element where
  "review_gaps =
     Element ''CodeReview'' None
       [Element ''GeneralObservations'' None
          [Element ''Observation'' None [],
           Element ''Observation'' (Some ''Good naming'') [],
           Element ''Observation'' None []],
        Element ''SpecificComments'' None
          [Element ''Comment'' None
             [Element ''Location'' None [], Element ''Feedback'' (Some ''unused import'') []],
           Element ''Comment'' None
             [Element ''Location'' (Some ''line 3'') [], Element ''Feedback'' None []]],
        Element ''ImprovementSuggestions'' None
          [Element ''Suggestion'' (Some ''Add tests'') [], Element ''Suggestion'' None []]]"

definition review_no_feedback :: element where
  "review_no_feedback =
     Element ''CodeReview'' None
       [Element ''GeneralObservations'' None [Element ''Observation'' (Some ''Good naming'') []],
        Element ''SpecificComments'' None
          [Element ''Comment'' None [Element ''Location'' (Some ''line 3'') []]],
        Element ''ImprovementSuggestions'' None [Element ''Suggestion'' (Some ''Add tests'') []]]"

definition review_no_suggestions :: element where
  "review_no_suggestions =
     Element ''CodeReview'' None
       [Element ''GeneralObservations'' None [Element ''Observation'' (Some ''Good naming'') []],
        Element ''SpecificComments'' None []]"

text \<open>
  The XML texts of these documents, a parser that knows exactly these texts (every other
  text is not XML for it), a client that answers every request with the commented review,
  and a world with the template, a source file and an earlier report.
\<close>

definition xml_commented :: string where
  "xml_commented =
     ''<CodeReview><GeneralObservations><Observation>Good naming</Observation></GeneralObservations>'' @
     ''<SpecificComments><Comment><Location>line 3</Location>'' @
     ''<Feedback>a &lt; b &amp; c is &lt;b>odd&lt;/b></Feedback></Comment></SpecificComments>'' @
     ''<ImprovementSuggestions><Suggestion>Add tests</Suggestion></ImprovementSuggestions></CodeReview>''"

definition xml_example :: string where
  "xml_example =
     ''<CodeReview><GeneralObservations><Observation>Good naming</Observation></GeneralObservations>'' @
     ''<SpecificComments/>'' @
     ''<ImprovementSuggestions><Suggestion>Add tests</Suggestion></ImprovementSuggestions></CodeReview>''"

definition xml_no_feedback :: string where
  "xml_no_feedback =
     ''<CodeReview><GeneralObservations><Observation>Good naming</Observation></GeneralObservations>'' @
     ''<SpecificComments><Comment><Location>line 3</Location></Comment></SpecificComments>'' @
     ''<ImprovementSuggestions><Suggestion>Add tests</Suggestion></ImprovementSuggestions></CodeReview>''"

definition xml_no_suggestions :: string where
  "xml_no_suggestions =
     ''<CodeReview><GeneralObservations><Observation>Good naming</Observation></GeneralObservations>'' @
     ''<SpecificComments/></CodeReview>''"

definition parse_table :: "string \<Rightarrow> error + element" where
  "parse_table s =
     (case map_of [(xml_commented, review_commented), (xml_example, review_example),
                   (xml_no_feedback, review_no_feedback),
                   (xml_no_suggestions, review_no_suggestions)] s of
        Some root \<Rightarrow> Inr root
      | None \<Rightarrow> Inl ParseError)"

definition platform_example :: platform where
  "platform_example =
     \<lparr>fromstring = parse_table,
      OpenAI = Inr (\<lambda>model messages. Inr xml_commented),
      file_dir = [''pkg'']\<rparr>"

definition world_example :: world where
  "world_example =
     \<lparr>files = [[''pkg'', ''templates'', ''code_review_template.html''] \<mapsto> ''<html><body><div>'',
               [''in.py''] \<mapsto> ''x = 1\<newline>'',
               [''out'', ''code_review.html''] \<mapsto> ''old report''],
      dirs = {[], [''pkg''], [''pkg'', ''templates''], [''out'']},
      log_level = 20, records = [], requests = []\<rparr>"

text \<open>
  A file with both kinds of carriage return, and a world in which a directory stands where
  the report would be written.
\<close>

definition content_crlf :: string where
  "content_crlf = ''a'' @ [CHR 0x0D, CHR 0x0A] @ ''b'' @ [CHR 0x0D] @ ''c''"

definition world_blocked :: world where
  "world_blocked =
     world_example\<lparr>dirs := dirs world_example \<union> {[''site''], [''site'', ''code_review.html'']}\<rparr>"

section \<open>Properties of the file loader\<close>

lemma get_file_loaded:
  "files w (normpath p) = Some content \<Longrightarrow>
   fst (get_file p w) = Inr (concat (map numbered (enumerate 0 (readlines content))))"
  by (simp add: get_file_def isfile_def open_read_def Let_def)

lemma numbered_enumerate:
  "map numbered (enumerate n xs) = map (\<lambda>i. str_nat (n + i + 1) @ '': '' @ xs ! i) [0..<length xs]"
proof (rule nth_equalityI)
  show "length (map numbered (enumerate n xs)) =
        length (map (\<lambda>i. str_nat (n + i + 1) @ '': '' @ xs ! i) [0..<length xs])"
    by simp
next
  fix i assume "i < length (map numbered (enumerate n xs))"
  then have i: "i < length xs" by simp
  then show "map numbered (enumerate n xs) ! i =
             map (\<lambda>i. str_nat (n + i + 1) @ '': '' @ xs ! i) [0..<length xs] ! i"
    by (simp add: nth_enumerate_eq numbered_def)
qed

lemma concat_readlines: "concat (readlines s) = s"
  by (induction s) (auto split: list.splits)

lemma is_lines_readlines: "is_lines (readlines s)"
proof (induction s)
  case Nil show ?case by simp
next
  case (Cons c cs)
  show ?case
  proof (cases "c = CHR 0x0A")
    case True
    then show ?thesis using Cons by (cases "readlines cs") auto
  next
    case False
    show ?thesis
    proof (cases "readlines cs")
      case Nil then show ?thesis using False by simp
    next
      case (Cons l ls)
      then show ?thesis using False Cons.IH by (cases ls) (auto simp: butlast_def split: if_splits)
    qed
  qed
qed

lemma digit_char_not_nl: "d < 10 \<Longrightarrow> digit_char d \<noteq> CHR 0x0A"
proof -
  assume "d < 10"
  then have "d \<in> {0,1,2,3,4,5,6,7,8,9}" by auto
  then show ?thesis unfolding digit_char_def by auto
qed

lemma str_nat_no_nl: "CHR 0x0A \<notin> set (str_nat n)"
proof (induction n rule: str_nat.induct)
  case (1 n)
  show ?case
  proof (cases "n < 10")
    case True
    then show ?thesis using digit_char_not_nl[of n] by (subst str_nat.simps) auto
  next
    case False
    then show ?thesis using 1 digit_char_not_nl[of "n mod 10"] by (subst str_nat.simps) auto
  qed
qed

lemma readlines_line:
  "CHR 0x0A \<notin> set b \<Longrightarrow> readlines (b @ CHR 0x0A # rest) = (b @ [CHR 0x0A]) # readlines rest"
  by (induction b) auto

lemma readlines_last:
  "CHR 0x0A \<notin> set b \<Longrightarrow> b \<noteq> [] \<Longrightarrow> readlines b = [b]"
proof (induction b)
  case Nil then show ?case by simp
next
  case (Cons c b)
  then show ?case by (cases b) auto
qed

lemma readlines_concat: "is_lines ls \<Longrightarrow> readlines (concat ls) = ls"
proof (induction ls rule: is_lines.induct)
  case 1 show ?case by simp
next
  case (2 l)
  then have l: "l \<noteq> []" "CHR 0x0A \<notin> set (butlast l)" by auto
  show ?case
  proof (cases "last l = CHR 0x0A")
    case True
    then have "l = butlast l @ [CHR 0x0A]" using l(1) by (metis append_butlast_last_id)
    then have "readlines l = (butlast l @ [CHR 0x0A]) # readlines []"
      using readlines_line[OF l(2), of "[]"] by simp
    then show ?thesis using \<open>l = butlast l @ [CHR 0x0A]\<close> by simp
  next
    case False
    then have "CHR 0x0A \<notin> set l" using l by (metis append_butlast_last_id Un_iff empty_iff insert_iff list.set(1) list.set(2) set_append)
    then show ?thesis using readlines_last l(1) by simp
  qed
next
  case (3 l v va)
  then have l: "l \<noteq> []" "last l = CHR 0x0A" "CHR 0x0A \<notin> set (butlast l)" and r: "is_lines (v # va)" by auto
  have eq: "l = butlast l @ [CHR 0x0A]" using l(1,2) by (metis append_butlast_last_id)
  have "readlines (concat (l # v # va)) = readlines (butlast l @ CHR 0x0A # concat (v # va))"
    by (subst eq) simp
  also have "\<dots> = (butlast l @ [CHR 0x0A]) # readlines (concat (v # va))"
    using readlines_line[OF l(3)] by simp
  also have "\<dots> = l # v # va" using 3 r eq by simp
  finally show ?case .
qed

lemma is_lines_numbered: "is_lines ls \<Longrightarrow> is_lines (map numbered (enumerate n ls))"
proof (induction ls arbitrary: n rule: is_lines.induct)
  case 1 show ?case by simp
next
  case (2 l)
  then show ?case by (simp add: numbered_def butlast_append str_nat_no_nl)
next
  case (3 l v va)
  then have "is_lines (map numbered (enumerate (Suc n) (v # va)))" by simp
  with 3 show ?case by (simp add: numbered_def butlast_append str_nat_no_nl)
qed

lemma strip_number_numbered: "strip_number (i, numbered (i, l)) = Some l"
  by (simp add: strip_number_def numbered_def Let_def)

lemma strip_numbered_all:
  "map strip_number (enumerate n (map numbered (enumerate n ls))) = map Some ls"
  by (induction ls arbitrary: n) (simp_all add: strip_number_numbered)

lemma those_map_Some: "those (map Some xs) = Some xs"
  by (induction xs) simp_all

lemma unnumber_numbered:
  "unnumber (concat (map numbered (enumerate 0 (readlines content)))) = Some content"
proof -
  have "readlines (concat (map numbered (enumerate 0 (readlines content))))
        = map numbered (enumerate 0 (readlines content))"
    by (rule readlines_concat) (rule is_lines_numbered, rule is_lines_readlines)
  then show ?thesis
    by (simp add: unnumber_def strip_numbered_all those_map_Some concat_readlines)
qed

text \<open>
  Claim C1. For every existing regular file, whose text has the lines
  \<open>readlines content\<close>, \<^const>\<open>get_file\<close> returns the concatenation of exactly as many
  pieces as the file has lines, in the order of the file, the \<open>i\<close>-th (from 0) being the
  decimal numeral of \<open>i + 1\<close>, a colon, a space and the \<open>i\<close>-th line unchanged. The witness is
  the example of the specification: the file with the lines \<^verbatim>\<open>a\<close> and \<^verbatim>\<open>b\<close> is loaded as
  \<^verbatim>\<open>"1: a\n2: b\n"\<close>.
\<close>

theorem get_file_numbers_lines:
  assumes "files w (normpath p) = Some content"
  shows "fst (get_file p w) =
         Inr (concat (map (\<lambda>i. str_nat (i + 1) @ '': '' @ readlines content ! i)
                [0..<length (readlines content)]))"
  using get_file_loaded[OF assms] numbered_enumerate[of 0 "readlines content"] by simp

theorem get_file_numbers_lines_witness:
  "files \<lparr>files = [[''a.txt''] \<mapsto> ''a\<newline>b\<newline>''], dirs = {[]}, log_level = 20, records = [], requests = []\<rparr>
     (normpath [''a.txt'']) = Some ''a\<newline>b\<newline>'' \<and>
   fst (get_file [''a.txt'']
     \<lparr>files = [[''a.txt''] \<mapsto> ''a\<newline>b\<newline>''], dirs = {[]}, log_level = 20, records = [], requests = []\<rparr>) =
     Inr ''1: a\<newline>2: b\<newline>''"
proof -
  let ?w = "\<lparr>files = [[''a.txt''] \<mapsto> ''a\<newline>b\<newline>''], dirs = {[]}, log_level = 20, records = [], requests = []\<rparr>"
  have h: "files ?w (normpath [''a.txt'']) = Some ''a\<newline>b\<newline>''"
    by (simp add: normpath_def)
  have e: "concat (map (\<lambda>i. str_nat (i + 1) @ '': '' @ readlines ''a\<newline>b\<newline>'' ! i)
                [0..<length (readlines ''a\<newline>b\<newline>'')]) = ''1: a\<newline>2: b\<newline>''"
    by code_simp
  show ?thesis
    using h get_file_numbers_lines[OF h] unfolding e by simp
qed

lemma universal_newlines_id: "CHR 0x0D \<notin> set s \<Longrightarrow> universal_newlines s = s"
  by (induction s rule: universal_newlines.induct) auto

lemma universal_newlines_no_cr: "CHR 0x0D \<notin> set (universal_newlines s)"
  by (induction s rule: universal_newlines.induct) auto

text \<open>
  Claim C9 (round trip), as amended. For every existing regular file, cutting the text that
  \<^const>\<open>get_file\<close> returns into its lines and taking the prefix \<^verbatim>\<open>"{i+1}: "\<close> off the \<open>i\<close>-th
  line gives back exactly the text the loader read: the content of the file with every
  line ending read as one line feed. Numbering drops, changes and reorders nothing of that
  text. It is the content of the file exactly when the file has no carriage return.

  The claim as stated, that the content of the file comes back, fails for a file with
  carriage returns: the content \<^verbatim>\<open>a\r\nb\rc\<close> is loaded as \<^verbatim>\<open>1: a\n2: b\n3: c\<close> and read
  back as \<^verbatim>\<open>a\nb\nc\<close>.
\<close>

theorem get_file_round_trip:
  assumes "files w (normpath p) = Some (universal_newlines raw)"
  shows "\<exists>out. fst (get_file p w) = Inr out \<and>
           unnumber out = Some (universal_newlines raw) \<and>
           (unnumber out = Some raw \<longleftrightarrow> CHR 0x0D \<notin> set raw)"
proof -
  let ?out = "concat (map numbered (enumerate 0 (readlines (universal_newlines raw))))"
  have g: "fst (get_file p w) = Inr ?out" by (rule get_file_loaded[OF assms])
  have u: "unnumber ?out = Some (universal_newlines raw)" by (rule unnumber_numbered)
  have "unnumber ?out = Some raw \<longleftrightarrow> CHR 0x0D \<notin> set raw"
    using u universal_newlines_id[of raw] universal_newlines_no_cr[of raw] by auto
  then show ?thesis using g u by blast
qed

theorem get_file_round_trip_witness:
  "files \<lparr>files = [[''src'', ''m.py''] \<mapsto> universal_newlines ''x = 1\<newline>\<newline>print(x)''],
      dirs = {[], [''src'']}, log_level = 20, records = [], requests = []\<rparr> (normpath [''src'', ''m.py''])
     = Some (universal_newlines ''x = 1\<newline>\<newline>print(x)'') \<and>
   fst (get_file [''src'', ''m.py'']
      \<lparr>files = [[''src'', ''m.py''] \<mapsto> universal_newlines ''x = 1\<newline>\<newline>print(x)''],
        dirs = {[], [''src'']}, log_level = 20, records = [], requests = []\<rparr>)
     = Inr ''1: x = 1\<newline>2: \<newline>3: print(x)'' \<and>
   unnumber ''1: x = 1\<newline>2: \<newline>3: print(x)'' = Some ''x = 1\<newline>\<newline>print(x)''"
proof -
  let ?raw = "''x = 1\<newline>\<newline>print(x)''"
  let ?w = "\<lparr>files = [[''src'', ''m.py''] \<mapsto> universal_newlines ?raw],
      dirs = {[], [''src'']}, log_level = 20, records = [], requests = []\<rparr>"
  have h: "files ?w (normpath [''src'', ''m.py'']) = Some (universal_newlines ?raw)"
    by (simp add: normpath_def)
  have nocr: "CHR 0x0D \<notin> set ?raw" by simp
  have g: "fst (get_file [''src'', ''m.py''] ?w) = Inr ''1: x = 1\<newline>2: \<newline>3: print(x)''"
    by code_simp
  from get_file_round_trip[OF h] nocr g
  have "unnumber ''1: x = 1\<newline>2: \<newline>3: print(x)'' = Some ?raw" by auto
  then show ?thesis using h g by simp
qed

theorem get_file_round_trip_counterexample:
  "fst (get_file [''m.txt'']
      \<lparr>files = [[''m.txt''] \<mapsto> universal_newlines content_crlf],
        dirs = {[]}, log_level = 20, records = [], requests = []\<rparr>)
     = Inr ''1: a\<newline>2: b\<newline>3: c'' \<and>
   unnumber ''1: a\<newline>2: b\<newline>3: c'' = Some ''a\<newline>b\<newline>c'' \<and>
   ''a\<newline>b\<newline>c'' \<noteq> content_crlf"
  by code_simp

section \<open>Properties of the report renderer\<close>

text \<open>
  The loops of \<^const>\<open>add_content_to_html\<close> in closed form: each appends one list item per
  child, in document order, and the loop over comments fails at the first comment without
  a location or a feedback.
\<close>

lemma render_texts_eq:
  "render_texts h xs = h @ concat (map (\<lambda>x. ''<li>'' @ py_str (el_text x) @ ''</li>'') xs)"
  by (induction xs arbitrary: h) simp_all

lemma render_comments_ok:
  "list_all2 (\<lambda>cm (l, f). find_el ''Location'' cm = Some l \<and> find_el ''Feedback'' cm = Some f) cs lfs \<Longrightarrow>
   render_comments h cs =
     Inr (h @ concat (map (\<lambda>(l, f). ''<li><strong>'' @ py_str (el_text l) @ '':</strong> '' @
                                    py_str (el_text f) @ ''</li>'') lfs))"
proof (induction cs lfs arbitrary: h rule: list_all2_induct)
  case Nil show ?case by simp
next
  case (Cons cm cs lf lfs)
  then show ?case by (cases lf) simp
qed

lemma render_comments_fail:
  "cm \<in> set cs \<Longrightarrow> find_el ''Location'' cm = None \<or> find_el ''Feedback'' cm = None \<Longrightarrow>
   render_comments h cs = Inl AttributeError"
proof (induction cs arbitrary: h)
  case Nil then show ?case by simp
next
  case (Cons c cs)
  show ?case
  proof (cases "find_el ''Location'' c")
    case None then show ?thesis by simp
  next
    case l: (Some l)
    show ?thesis
    proof (cases "find_el ''Feedback'' c")
      case None then show ?thesis using l by simp
    next
      case f: (Some f)
      then have "cm \<in> set cs" using Cons.prems l by auto
      then show ?thesis using Cons.IH Cons.prems(2) l f by simp
    qed
  qed
qed

lemma add_content_to_html_closed:
  assumes "find_el ''GeneralObservations'' root = Some g"
    and "find_el ''SpecificComments'' root = Some c"
    and "find_el ''ImprovementSuggestions'' root = Some s"
    and "list_all2 (\<lambda>cm (l, f). find_el ''Location'' cm = Some l \<and> find_el ''Feedback'' cm = Some f)
           (children c) lfs"
  shows "add_content_to_html tpl root =
     Inr (tpl @ ''<h2>General Observations</h2><ul>'' @
          concat (map (\<lambda>x. ''<li>'' @ py_str (el_text x) @ ''</li>'') (children g)) @
          ''</ul>'' @ ''<h2>Specific Comments</h2><ul>'' @
          concat (map (\<lambda>(l, f). ''<li><strong>'' @ py_str (el_text l) @ '':</strong> '' @
                                 py_str (el_text f) @ ''</li>'') lfs) @
          ''</ul>'' @ ''<h2>Improvement Suggestions</h2><ul>'' @
          concat (map (\<lambda>x. ''<li>'' @ py_str (el_text x) @ ''</li>'') (children s)) @
          ''</ul>'' @ ''</div></body></html>'')"
  unfolding add_content_to_html_def Let_def
  by (simp only: assms(1-3) option.case render_texts_eq render_comments_ok[OF assms(4)] sum.case append_assoc)

lemma add_content_to_html_missing:
  assumes "find_el ''GeneralObservations'' root = None \<or> find_el ''SpecificComments'' root = None
           \<or> find_el ''ImprovementSuggestions'' root = None"
  shows "\<exists>e. add_content_to_html tpl root = Inl e"
  using assms unfolding add_content_to_html_def Let_def
  by (auto split: option.splits sum.splits)

lemma add_content_to_html_bad_comment:
  assumes "find_el ''SpecificComments'' root = Some sc" and "cm \<in> set (children sc)"
    and "find_el ''Location'' cm = None \<or> find_el ''Feedback'' cm = None"
  shows "\<exists>e. add_content_to_html tpl root = Inl e"
  unfolding add_content_to_html_def Let_def
  using assms(1) render_comments_fail[OF assms(2,3)]
  by (auto split: option.splits sum.splits)

lemma generate_report_render_fail:
  assumes "fromstring pf review = Inr root" and "\<And>tpl. \<exists>e. add_content_to_html tpl root = Inl e"
  shows "\<exists>e. generate_report pf review out w = (Inl e, w)"
proof (cases "open_read w (html_template_path pf)")
  case (Inl e)
  then show ?thesis using assms(1) by (simp add: generate_report_def)
next
  case (Inr tpl)
  obtain e where "add_content_to_html tpl root = Inl e" using assms(2) by blast
  then show ?thesis using assms(1) Inr by (simp add: generate_report_def)
qed

lemma comments_all_found:
  assumes "\<forall>cm \<in> set cs. find_el ''Location'' cm \<noteq> None \<and> find_el ''Feedback'' cm \<noteq> None"
  shows "list_all2 (\<lambda>cm (l, f). find_el ''Location'' cm = Some l \<and> find_el ''Feedback'' cm = Some f)
           cs (map (\<lambda>cm. (the (find_el ''Location'' cm), the (find_el ''Feedback'' cm))) cs)"
  using assms by (induction cs) auto

lemma add_content_to_html_example:
  "add_content_to_html ''<html><body><div>'' review_example =
     Inr (''<html><body><div><h2>General Observations</h2><ul><li>Good naming</li></ul>'' @
          ''<h2>Specific Comments</h2><ul></ul>'' @
          ''<h2>Improvement Suggestions</h2><ul><li>Add tests</li></ul></div></body></html>'')"
  by (simp add: review_example_def add_content_to_html_def find_el_def)

text \<open>
  Claim C2. For every well-formed review document (the three groups are found, and every
  child of the comments group has a Location and a Feedback child),
  \<^const>\<open>add_content_to_html\<close> returns the template followed by three lists whose items are
  exactly the children of the three groups: as many observation items as the
  GeneralObservations group has children, as many comment items as SpecificComments has,
  as many suggestion items as ImprovementSuggestions has, the \<open>i\<close>-th item being the list
  item of the \<open>i\<close>-th child. Each comment item is made of the text of that comment's
  location and of its feedback.
\<close>

theorem add_content_to_html_item_counts:
  assumes "find_el ''GeneralObservations'' root = Some g"
    and "find_el ''SpecificComments'' root = Some c"
    and "find_el ''ImprovementSuggestions'' root = Some s"
    and "\<forall>cm \<in> set (children c). find_el ''Location'' cm \<noteq> None \<and> find_el ''Feedback'' cm \<noteq> None"
  shows "\<exists>obs coms sugs.
      add_content_to_html tpl root =
        Inr (tpl @ ''<h2>General Observations</h2><ul>'' @ concat obs @
             ''</ul><h2>Specific Comments</h2><ul>'' @ concat coms @
             ''</ul><h2>Improvement Suggestions</h2><ul>'' @ concat sugs @
             ''</ul></div></body></html>'') \<and>
      length obs = length (children g) \<and>
      length coms = length (children c) \<and>
      length sugs = length (children s) \<and>
      (\<forall>i < length obs. obs ! i = ''<li>'' @ py_str (el_text (children g ! i)) @ ''</li>'') \<and>
      (\<forall>i < length coms. \<exists>l f.
          find_el ''Location'' (children c ! i) = Some l \<and>
          find_el ''Feedback'' (children c ! i) = Some f \<and>
          coms ! i = ''<li><strong>'' @ py_str (el_text l) @ '':</strong> '' @
                     py_str (el_text f) @ ''</li>'') \<and>
      (\<forall>i < length sugs. sugs ! i = ''<li>'' @ py_str (el_text (children s ! i)) @ ''</li>'')"
proof -
  let ?item = "\<lambda>x. ''<li>'' @ py_str (el_text x) @ ''</li>''"
  let ?citem = "\<lambda>(l, f). ''<li><strong>'' @ py_str (el_text l) @ '':</strong> '' @
                           py_str (el_text f) @ ''</li>''"
  let ?lfs = "map (\<lambda>cm. (the (find_el ''Location'' cm), the (find_el ''Feedback'' cm))) (children c)"
  let ?obs = "map ?item (children g)" and ?coms = "map ?citem ?lfs" and ?sugs = "map ?item (children s)"
  have all2: "list_all2 (\<lambda>cm (l, f). find_el ''Location'' cm = Some l \<and> find_el ''Feedback'' cm = Some f)
                (children c) ?lfs"
    by (rule comments_all_found[OF assms(4)])
  have out: "add_content_to_html tpl root =
        Inr (tpl @ ''<h2>General Observations</h2><ul>'' @ concat ?obs @
             ''</ul><h2>Specific Comments</h2><ul>'' @ concat ?coms @
             ''</ul><h2>Improvement Suggestions</h2><ul>'' @ concat ?sugs @
             ''</ul></div></body></html>'')"
    using add_content_to_html_closed[OF assms(1-3) all2, of tpl] by simp
  have lens: "length ?obs = length (children g)" "length ?coms = length (children c)"
    "length ?sugs = length (children s)" by simp_all
  have o: "\<forall>i < length ?obs. ?obs ! i = ?item (children g ! i)" by simp
  have s: "\<forall>i < length ?sugs. ?sugs ! i = ?item (children s ! i)" by simp
  have cpart: "\<forall>i < length ?coms. \<exists>l f.
          find_el ''Location'' (children c ! i) = Some l \<and>
          find_el ''Feedback'' (children c ! i) = Some f \<and>
          ?coms ! i = ''<li><strong>'' @ py_str (el_text l) @ '':</strong> '' @
                     py_str (el_text f) @ ''</li>''"
  proof (intro allI impI)
    fix i assume "i < length ?coms"
    then have i: "i < length (children c)" by simp
    then have "children c ! i \<in> set (children c)" by simp
    then obtain l f where lf: "find_el ''Location'' (children c ! i) = Some l"
      "find_el ''Feedback'' (children c ! i) = Some f" using assms(4) by blast
    then have "?coms ! i = ''<li><strong>'' @ py_str (el_text l) @ '':</strong> '' @
                     py_str (el_text f) @ ''</li>''" using i by simp
    then show "\<exists>l f.
          find_el ''Location'' (children c ! i) = Some l \<and>
          find_el ''Feedback'' (children c ! i) = Some f \<and>
          ?coms ! i = ''<li><strong>'' @ py_str (el_text l) @ '':</strong> '' @
                     py_str (el_text f) @ ''</li>''" using lf by blast
  qed
  show ?thesis
    apply (rule exI[of _ ?obs], rule exI[of _ ?coms], rule exI[of _ ?sugs])
    using out lens o s cpart by blast
qed

theorem add_content_to_html_item_counts_witness:
  "find_el ''GeneralObservations'' review_commented
     = Some (Element ''GeneralObservations'' None [Element ''Observation'' (Some ''Good naming'') []]) \<and>
   (\<exists>obs coms sugs.
      add_content_to_html ''<div>'' review_commented =
        Inr (''<div>'' @ ''<h2>General Observations</h2><ul>'' @ concat obs @
             ''</ul><h2>Specific Comments</h2><ul>'' @ concat coms @
             ''</ul><h2>Improvement Suggestions</h2><ul>'' @ concat sugs @
             ''</ul></div></body></html>'') \<and>
      length obs = 1 \<and> length coms = 1 \<and> length sugs = 1 \<and>
      obs ! 0 = ''<li>Good naming</li>'' \<and>
      coms ! 0 = ''<li><strong>line 3:</strong> a < b & c is <b>odd</b></li>'' \<and>
      sugs ! 0 = ''<li>Add tests</li>'')"
proof -
  let ?g = "Element ''GeneralObservations'' None [Element ''Observation'' (Some ''Good naming'') []]"
  let ?cm = "Element ''Comment'' None
             [Element ''Location'' (Some ''line 3'') [],
              Element ''Feedback'' (Some ''a < b & c is <b>odd</b>'') []]"
  let ?c = "Element ''SpecificComments'' None [?cm]"
  let ?s = "Element ''ImprovementSuggestions'' None [Element ''Suggestion'' (Some ''Add tests'') []]"
  have g: "find_el ''GeneralObservations'' review_commented = Some ?g"
    by (simp add: review_commented_def find_el_def)
  have c: "find_el ''SpecificComments'' review_commented = Some ?c"
    by (simp add: review_commented_def find_el_def)
  have s: "find_el ''ImprovementSuggestions'' review_commented = Some ?s"
    by (simp add: review_commented_def find_el_def)
  have wf: "\<forall>cm \<in> set (children ?c). find_el ''Location'' cm \<noteq> None \<and> find_el ''Feedback'' cm \<noteq> None"
    by (simp add: find_el_def)
  from add_content_to_html_item_counts[OF g c s wf, of "''<div>''"]
  obtain obs coms sugs where
    out: "add_content_to_html ''<div>'' review_commented =
        Inr (''<div>'' @ ''<h2>General Observations</h2><ul>'' @ concat obs @
             ''</ul><h2>Specific Comments</h2><ul>'' @ concat coms @
             ''</ul><h2>Improvement Suggestions</h2><ul>'' @ concat sugs @
             ''</ul></div></body></html>'')"
    and lens: "length obs = length (children ?g)" "length coms = length (children ?c)"
      "length sugs = length (children ?s)"
    and o: "\<forall>i < length obs. obs ! i = ''<li>'' @ py_str (el_text (children ?g ! i)) @ ''</li>''"
    and cs: "\<forall>i < length coms. \<exists>l f.
          find_el ''Location'' (children ?c ! i) = Some l \<and>
          find_el ''Feedback'' (children ?c ! i) = Some f \<and>
          coms ! i = ''<li><strong>'' @ py_str (el_text l) @ '':</strong> '' @
                     py_str (el_text f) @ ''</li>''"
    and sg: "\<forall>i < length sugs. sugs ! i = ''<li>'' @ py_str (el_text (children ?s ! i)) @ ''</li>''"
    by blast
  have l1: "length obs = 1" "length coms = 1" "length sugs = 1" using lens by simp_all
  have o0: "obs ! 0 = ''<li>Good naming</li>''" using o l1 by simp
  have s0: "sugs ! 0 = ''<li>Add tests</li>''" using sg l1 by simp
  obtain l f where lf: "find_el ''Location'' (children ?c ! 0) = Some l"
      "find_el ''Feedback'' (children ?c ! 0) = Some f"
      "coms ! 0 = ''<li><strong>'' @ py_str (el_text l) @ '':</strong> '' @ py_str (el_text f) @ ''</li>''"
    using cs l1 by auto
  have "l = Element ''Location'' (Some ''line 3'') []" using lf(1) by (simp add: find_el_def)
  moreover have "f = Element ''Feedback'' (Some ''a < b & c is <b>odd</b>'') []"
    using lf(2) by (simp add: find_el_def)
  ultimately have c0: "coms ! 0 = ''<li><strong>line 3:</strong> a < b & c is <b>odd</b></li>''"
    using lf(3) by simp
  show ?thesis
    apply (intro conjI)
     apply (rule g)
    apply (rule exI[of _ obs], rule exI[of _ coms], rule exI[of _ sugs])
    using out l1 o0 c0 s0 apply blast
    done
qed

text \<open>
  Claim C7. For every well-formed review document the rendered string is exactly the
  template, then the sections General Observations, Specific Comments and Improvement
  Suggestions in this order, then the closing fragment \<^verbatim>\<open></div></body></html>\<close>. The
  text of every element stands in it as it is: \<^const>\<open>py_str\<close> of a text that is present is
  that text, character for character, and nothing is escaped (the witness embeds
  \<^verbatim>\<open><\<close> and \<^verbatim>\<open>&\<close> unchanged).
\<close>

theorem add_content_to_html_verbatim:
  assumes "find_el ''GeneralObservations'' root = Some g"
    and "find_el ''SpecificComments'' root = Some c"
    and "find_el ''ImprovementSuggestions'' root = Some s"
    and "list_all2 (\<lambda>cm (l, f). find_el ''Location'' cm = Some l \<and> find_el ''Feedback'' cm = Some f)
           (children c) lfs"
  shows "add_content_to_html tpl root =
     Inr (tpl @
          ''<h2>General Observations</h2><ul>'' @
          concat (map (\<lambda>x. ''<li>'' @ py_str (el_text x) @ ''</li>'') (children g)) @ ''</ul>'' @
          ''<h2>Specific Comments</h2><ul>'' @
          concat (map (\<lambda>(l, f). ''<li><strong>'' @ py_str (el_text l) @ '':</strong> '' @
                                 py_str (el_text f) @ ''</li>'') lfs) @ ''</ul>'' @
          ''<h2>Improvement Suggestions</h2><ul>'' @
          concat (map (\<lambda>x. ''<li>'' @ py_str (el_text x) @ ''</li>'') (children s)) @ ''</ul>'' @
          ''</div></body></html>'')"
  using add_content_to_html_closed[OF assms] by simp

theorem add_content_to_html_verbatim_witness:
  "find_el ''SpecificComments'' review_commented =
     Some (Element ''SpecificComments'' None
          [Element ''Comment'' None
             [Element ''Location'' (Some ''line 3'') [],
              Element ''Feedback'' (Some ''a < b & c is <b>odd</b>'') []]]) \<and>
   add_content_to_html ''<html><body><div>'' review_commented =
     Inr (''<html><body><div>'' @
          ''<h2>General Observations</h2><ul><li>Good naming</li></ul>'' @
          ''<h2>Specific Comments</h2><ul><li><strong>line 3:</strong> a < b & c is <b>odd</b></li></ul>'' @
          ''<h2>Improvement Suggestions</h2><ul><li>Add tests</li></ul>'' @
          ''</div></body></html>'')"
proof -
  let ?g = "Element ''GeneralObservations'' None [Element ''Observation'' (Some ''Good naming'') []]"
  let ?l = "Element ''Location'' (Some ''line 3'') []"
  let ?f = "Element ''Feedback'' (Some ''a < b & c is <b>odd</b>'') []"
  let ?c = "Element ''SpecificComments'' None [Element ''Comment'' None [?l, ?f]]"
  let ?s = "Element ''ImprovementSuggestions'' None [Element ''Suggestion'' (Some ''Add tests'') []]"
  have g: "find_el ''GeneralObservations'' review_commented = Some ?g"
    by (simp add: review_commented_def find_el_def)
  have c: "find_el ''SpecificComments'' review_commented = Some ?c"
    by (simp add: review_commented_def find_el_def)
  have s: "find_el ''ImprovementSuggestions'' review_commented = Some ?s"
    by (simp add: review_commented_def find_el_def)
  have lf: "list_all2 (\<lambda>cm (l, f). find_el ''Location'' cm = Some l \<and> find_el ''Feedback'' cm = Some f)
           (children ?c) [(?l, ?f)]"
    by (simp add: find_el_def)
  show ?thesis
    using c add_content_to_html_verbatim[OF g c s lf, of "''<html><body><div>''"] by simp
qed

lemma concat_map_nth:
  "i < length xs \<Longrightarrow>
   concat (map f xs) = concat (map f (take i xs)) @ f (xs ! i) @ concat (map f (drop (Suc i) xs))"
proof -
  assume "i < length xs"
  then have "xs = take i xs @ xs ! i # drop (Suc i) xs" by (rule id_take_nth_drop)
  then have "concat (map f xs) = concat (map f (take i xs @ xs ! i # drop (Suc i) xs))" by simp
  then show ?thesis by simp
qed

text \<open>
  Claim C10. An element without text has the text \<^verbatim>\<open>None\<close>, and the f-string prints it
  as the word. For a well-formed document the renderer does not fail, and the list item of
  the element itself carries the word: when the \<open>i\<close>-th observation (or suggestion) has no
  text, the \<open>i\<close>-th item of that list, between the items of the children before and after
  it, is \<^verbatim>\<open><li>None</li>\<close>; when the location (or the feedback) of the \<open>i\<close>-th comment has
  no text, the \<open>i\<close>-th comment item has \<^verbatim>\<open>None\<close> in the place of that text.
\<close>

theorem add_content_to_html_empty_text:
  assumes "find_el ''GeneralObservations'' root = Some g"
    and "find_el ''SpecificComments'' root = Some c"
    and "find_el ''ImprovementSuggestions'' root = Some s"
    and "list_all2 (\<lambda>cm (l, f). find_el ''Location'' cm = Some l \<and> find_el ''Feedback'' cm = Some f)
           (children c) lfs"
  shows "(\<forall>i < length (children g). el_text (children g ! i) = None \<longrightarrow>
      add_content_to_html tpl root =
        Inr (tpl @ ''<h2>General Observations</h2><ul>'' @
          concat (map (\<lambda>x. ''<li>'' @ py_str (el_text x) @ ''</li>'') (take i (children g))) @
          ''<li>None</li>'' @
          concat (map (\<lambda>x. ''<li>'' @ py_str (el_text x) @ ''</li>'') (drop (Suc i) (children g))) @
          ''</ul>'' @ ''<h2>Specific Comments</h2><ul>'' @
          concat (map (\<lambda>(l, f). ''<li><strong>'' @ py_str (el_text l) @ '':</strong> '' @
                                 py_str (el_text f) @ ''</li>'') lfs) @
          ''</ul>'' @ ''<h2>Improvement Suggestions</h2><ul>'' @
          concat (map (\<lambda>x. ''<li>'' @ py_str (el_text x) @ ''</li>'') (children s)) @
          ''</ul>'' @ ''</div></body></html>'')) \<and>
    (\<forall>i < length (children s). el_text (children s ! i) = None \<longrightarrow>
      add_content_to_html tpl root =
        Inr (tpl @ ''<h2>General Observations</h2><ul>'' @
          concat (map (\<lambda>x. ''<li>'' @ py_str (el_text x) @ ''</li>'') (children g)) @
          ''</ul>'' @ ''<h2>Specific Comments</h2><ul>'' @
          concat (map (\<lambda>(l, f). ''<li><strong>'' @ py_str (el_text l) @ '':</strong> '' @
                                 py_str (el_text f) @ ''</li>'') lfs) @
          ''</ul>'' @ ''<h2>Improvement Suggestions</h2><ul>'' @
          concat (map (\<lambda>x. ''<li>'' @ py_str (el_text x) @ ''</li>'') (take i (children s))) @
          ''<li>None</li>'' @
          concat (map (\<lambda>x. ''<li>'' @ py_str (el_text x) @ ''</li>'') (drop (Suc i) (children s))) @
          ''</ul>'' @ ''</div></body></html>'')) \<and>
    (\<forall>i < length lfs. el_text (fst (lfs ! i)) = None \<longrightarrow>
      add_content_to_html tpl root =
        Inr (tpl @ ''<h2>General Observations</h2><ul>'' @
          concat (map (\<lambda>x. ''<li>'' @ py_str (el_text x) @ ''</li>'') (children g)) @
          ''</ul>'' @ ''<h2>Specific Comments</h2><ul>'' @
          concat (map (\<lambda>(l, f). ''<li><strong>'' @ py_str (el_text l) @ '':</strong> '' @
                                 py_str (el_text f) @ ''</li>'') (take i lfs)) @
          ''<li><strong>None:</strong> '' @ py_str (el_text (snd (lfs ! i))) @ ''</li>'' @
          concat (map (\<lambda>(l, f). ''<li><strong>'' @ py_str (el_text l) @ '':</strong> '' @
                                 py_str (el_text f) @ ''</li>'') (drop (Suc i) lfs)) @
          ''</ul>'' @ ''<h2>Improvement Suggestions</h2><ul>'' @
          concat (map (\<lambda>x. ''<li>'' @ py_str (el_text x) @ ''</li>'') (children s)) @
          ''</ul>'' @ ''</div></body></html>'')) \<and>
    (\<forall>i < length lfs. el_text (snd (lfs ! i)) = None \<longrightarrow>
      add_content_to_html tpl root =
        Inr (tpl @ ''<h2>General Observations</h2><ul>'' @
          concat (map (\<lambda>x. ''<li>'' @ py_str (el_text x) @ ''</li>'') (children g)) @
          ''</ul>'' @ ''<h2>Specific Comments</h2><ul>'' @
          concat (map (\<lambda>(l, f). ''<li><strong>'' @ py_str (el_text l) @ '':</strong> '' @
                                 py_str (el_text f) @ ''</li>'') (take i lfs)) @
          ''<li><strong>'' @ py_str (el_text (fst (lfs ! i))) @ '':</strong> None</li>'' @
          concat (map (\<lambda>(l, f). ''<li><strong>'' @ py_str (el_text l) @ '':</strong> '' @
                                 py_str (el_text f) @ ''</li>'') (drop (Suc i) lfs)) @
          ''</ul>'' @ ''<h2>Improvement Suggestions</h2><ul>'' @
          concat (map (\<lambda>x. ''<li>'' @ py_str (el_text x) @ ''</li>'') (children s)) @
          ''</ul>'' @ ''</div></body></html>''))"
proof -
  let ?item = "\<lambda>x. ''<li>'' @ py_str (el_text x) @ ''</li>''"
  let ?citem = "\<lambda>(l, f). ''<li><strong>'' @ py_str (el_text l) @ '':</strong> '' @
                           py_str (el_text f) @ ''</li>''"
  note out = add_content_to_html_closed[OF assms, of tpl]
  have t: "concat (map ?item xs) =
        concat (map ?item (take i xs)) @ ''<li>None</li>'' @ concat (map ?item (drop (Suc i) xs))"
    if "i < length xs" "el_text (xs ! i) = None" for xs :: "element list" and i
    using concat_map_nth[OF that(1), of ?item] that(2) by simp
  have l: "concat (map ?citem lfs) =
        concat (map ?citem (take i lfs)) @
        (''<li><strong>None:</strong> '' @ py_str (el_text (snd (lfs ! i))) @ ''</li>'') @
        concat (map ?citem (drop (Suc i) lfs))"
    if "i < length lfs" "el_text (fst (lfs ! i)) = None" for i
    using concat_map_nth[OF that(1), of ?citem] that(2) by (cases "lfs ! i") simp
  have f: "concat (map ?citem lfs) =
        concat (map ?citem (take i lfs)) @
        (''<li><strong>'' @ py_str (el_text (fst (lfs ! i))) @ '':</strong> None</li>'') @
        concat (map ?citem (drop (Suc i) lfs))"
    if "i < length lfs" "el_text (snd (lfs ! i)) = None" for i
    using concat_map_nth[OF that(1), of ?citem] that(2) by (cases "lfs ! i") simp
  show ?thesis
  proof (intro conjI allI impI)
    fix i assume i: "i < length (children g)" "el_text (children g ! i) = None"
    show "add_content_to_html tpl root =
        Inr (tpl @ ''<h2>General Observations</h2><ul>'' @
          concat (map (\<lambda>x. ''<li>'' @ py_str (el_text x) @ ''</li>'') (take i (children g))) @
          ''<li>None</li>'' @
          concat (map (\<lambda>x. ''<li>'' @ py_str (el_text x) @ ''</li>'') (drop (Suc i) (children g))) @
          ''</ul>'' @ ''<h2>Specific Comments</h2><ul>'' @
          concat (map (\<lambda>(l, f). ''<li><strong>'' @ py_str (el_text l) @ '':</strong> '' @
                                 py_str (el_text f) @ ''</li>'') lfs) @
          ''</ul>'' @ ''<h2>Improvement Suggestions</h2><ul>'' @
          concat (map (\<lambda>x. ''<li>'' @ py_str (el_text x) @ ''</li>'') (children s)) @
          ''</ul>'' @ ''</div></body></html>'')"
      unfolding out t[OF i] by simp
  next
    fix i assume i: "i < length (children s)" "el_text (children s ! i) = None"
    show "add_content_to_html tpl root =
        Inr (tpl @ ''<h2>General Observations</h2><ul>'' @
          concat (map (\<lambda>x. ''<li>'' @ py_str (el_text x) @ ''</li>'') (children g)) @
          ''</ul>'' @ ''<h2>Specific Comments</h2><ul>'' @
          concat (map (\<lambda>(l, f). ''<li><strong>'' @ py_str (el_text l) @ '':</strong> '' @
                                 py_str (el_text f) @ ''</li>'') lfs) @
          ''</ul>'' @ ''<h2>Improvement Suggestions</h2><ul>'' @
          concat (map (\<lambda>x. ''<li>'' @ py_str (el_text x) @ ''</li>'') (take i (children s))) @
          ''<li>None</li>'' @
          concat (map (\<lambda>x. ''<li>'' @ py_str (el_text x) @ ''</li>'') (drop (Suc i) (children s))) @
          ''</ul>'' @ ''</div></body></html>'')"
      unfolding out t[OF i] by simp
  next
    fix i assume i: "i < length lfs" "el_text (fst (lfs ! i)) = None"
    show "add_content_to_html tpl root =
        Inr (tpl @ ''<h2>General Observations</h2><ul>'' @
          concat (map (\<lambda>x. ''<li>'' @ py_str (el_text x) @ ''</li>'') (children g)) @
          ''</ul>'' @ ''<h2>Specific Comments</h2><ul>'' @
          concat (map (\<lambda>(l, f). ''<li><strong>'' @ py_str (el_text l) @ '':</strong> '' @
                                 py_str (el_text f) @ ''</li>'') (take i lfs)) @
          ''<li><strong>None:</strong> '' @ py_str (el_text (snd (lfs ! i))) @ ''</li>'' @
          concat (map (\<lambda>(l, f). ''<li><strong>'' @ py_str (el_text l) @ '':</strong> '' @
                                 py_str (el_text f) @ ''</li>'') (drop (Suc i) lfs)) @
          ''</ul>'' @ ''<h2>Improvement Suggestions</h2><ul>'' @
          concat (map (\<lambda>x. ''<li>'' @ py_str (el_text x) @ ''</li>'') (children s)) @
          ''</ul>'' @ ''</div></body></html>'')"
      unfolding out l[OF i] by simp
  next
    fix i assume i: "i < length lfs" "el_text (snd (lfs ! i)) = None"
    show "add_content_to_html tpl root =
        Inr (tpl @ ''<h2>General Observations</h2><ul>'' @
          concat (map (\<lambda>x. ''<li>'' @ py_str (el_text x) @ ''</li>'') (children g)) @
          ''</ul>'' @ ''<h2>Specific Comments</h2><ul>'' @
          concat (map (\<lambda>(l, f). ''<li><strong>'' @ py_str (el_text l) @ '':</strong> '' @
                                 py_str (el_text f) @ ''</li>'') (take i lfs)) @
          ''<li><strong>'' @ py_str (el_text (fst (lfs ! i))) @ '':</strong> None</li>'' @
          concat (map (\<lambda>(l, f). ''<li><strong>'' @ py_str (el_text l) @ '':</strong> '' @
                                 py_str (el_text f) @ ''</li>'') (drop (Suc i) lfs)) @
          ''</ul>'' @ ''<h2>Improvement Suggestions</h2><ul>'' @
          concat (map (\<lambda>x. ''<li>'' @ py_str (el_text x) @ ''</li>'') (children s)) @
          ''</ul>'' @ ''</div></body></html>'')"
      unfolding out f[OF i] by simp
  qed
qed

theorem add_content_to_html_empty_text_witness:
  "el_text (Element ''Observation'' None []) = None \<and>
   add_content_to_html ''<div>'' review_gaps =
     Inr (''<div><h2>General Observations</h2><ul>'' @
          ''<li>None</li><li>Good naming</li><li>None</li></ul>'' @
          ''<h2>Specific Comments</h2><ul>'' @
          ''<li><strong>None:</strong> unused import</li>'' @
          ''<li><strong>line 3:</strong> None</li></ul>'' @
          ''<h2>Improvement Suggestions</h2><ul><li>Add tests</li><li>None</li></ul>'' @
          ''</div></body></html>'')"
proof -
  let ?o1 = "Element ''Observation'' None []"
  let ?o2 = "Element ''Observation'' (Some ''Good naming'') []"
  let ?g = "Element ''GeneralObservations'' None [?o1, ?o2, ?o1]"
  let ?l1 = "Element ''Location'' None []" and ?f1 = "Element ''Feedback'' (Some ''unused import'') []"
  let ?l2 = "Element ''Location'' (Some ''line 3'') []" and ?f2 = "Element ''Feedback'' None []"
  let ?c = "Element ''SpecificComments'' None
              [Element ''Comment'' None [?l1, ?f1], Element ''Comment'' None [?l2, ?f2]]"
  let ?s = "Element ''ImprovementSuggestions'' None
              [Element ''Suggestion'' (Some ''Add tests'') [], Element ''Suggestion'' None []]"
  have g: "find_el ''GeneralObservations'' review_gaps = Some ?g"
    by (simp add: review_gaps_def find_el_def)
  have c: "find_el ''SpecificComments'' review_gaps = Some ?c"
    by (simp add: review_gaps_def find_el_def)
  have s: "find_el ''ImprovementSuggestions'' review_gaps = Some ?s"
    by (simp add: review_gaps_def find_el_def)
  have lf: "list_all2 (\<lambda>cm (l, f). find_el ''Location'' cm = Some l \<and> find_el ''Feedback'' cm = Some f)
           (children ?c) [(?l1, ?f1), (?l2, ?f2)]"
    by (simp add: find_el_def)
  have i: "2 < length (children ?g)" "el_text (children ?g ! 2) = None" by simp_all
  from add_content_to_html_empty_text[OF g c s lf, of "''<div>''"] i
  have "add_content_to_html ''<div>'' review_gaps =
        Inr (''<div>'' @ ''<h2>General Observations</h2><ul>'' @
          concat (map (\<lambda>x. ''<li>'' @ py_str (el_text x) @ ''</li>'') (take 2 (children ?g))) @
          ''<li>None</li>'' @
          concat (map (\<lambda>x. ''<li>'' @ py_str (el_text x) @ ''</li>'') (drop (Suc 2) (children ?g))) @
          ''</ul>'' @ ''<h2>Specific Comments</h2><ul>'' @
          concat (map (\<lambda>(l, f). ''<li><strong>'' @ py_str (el_text l) @ '':</strong> '' @
                                 py_str (el_text f) @ ''</li>'') [(?l1, ?f1), (?l2, ?f2)]) @
          ''</ul>'' @ ''<h2>Improvement Suggestions</h2><ul>'' @
          concat (map (\<lambda>x. ''<li>'' @ py_str (el_text x) @ ''</li>'') (children ?s)) @
          ''</ul>'' @ ''</div></body></html>'')"
    by blast
  then show ?thesis by simp
qed



section \<open>Properties of report generation\<close>

lemma parse_no_feedback: "parse_table xml_no_feedback = Inr review_no_feedback"
  by (simp add: parse_table_def xml_commented_def xml_example_def xml_no_feedback_def)

lemma parse_no_suggestions: "parse_table xml_no_suggestions = Inr review_no_suggestions"
  by (simp add: parse_table_def xml_commented_def xml_example_def xml_no_feedback_def xml_no_suggestions_def)

lemma parse_commented: "parse_table xml_commented = Inr review_commented"
  by (simp add: parse_table_def)

lemma parse_garbage: "parse_table ''not xml'' = Inl ParseError"
  by (simp add: parse_table_def xml_commented_def xml_example_def xml_no_feedback_def xml_no_suggestions_def)

lemma template_example:
  "open_read world_example (html_template_path platform_example) = Inr ''<html><body><div>''"
  by (simp add: open_read_def world_example_def html_template_path_def platform_example_def join_def)

lemma template_blocked:
  "open_read world_blocked (html_template_path platform_example) = Inr ''<html><body><div>''"
  by (simp add: open_read_def world_blocked_def world_example_def html_template_path_def
      platform_example_def join_def)

text \<open>
  Claim C5. When the root of the parsed review lacks one of the three groups
  GeneralObservations, SpecificComments, ImprovementSuggestions, rendering fails for every
  template, and \<^const>\<open>generate_report\<close> fails and leaves the world as it was: there is no
  fallback that renders the sections that are present.
\<close>

theorem generate_report_missing_group:
  assumes "find_el ''GeneralObservations'' root = None \<or> find_el ''SpecificComments'' root = None
           \<or> find_el ''ImprovementSuggestions'' root = None"
  shows "(\<exists>e. add_content_to_html html_template root = Inl e) \<and>
         (fromstring pf review = Inr root \<longrightarrow>
            (\<exists>e. generate_report pf review output_dir w = (Inl e, w)))"
  using add_content_to_html_missing[OF assms]
    generate_report_render_fail[of pf review root output_dir w] by blast

theorem generate_report_missing_group_witness:
  "find_el ''ImprovementSuggestions'' review_no_suggestions = None \<and>
   fromstring platform_example xml_no_suggestions = Inr review_no_suggestions \<and>
   add_content_to_html ''<html><body><div>'' review_no_suggestions = Inl TypeError \<and>
   generate_report platform_example xml_no_suggestions [''out''] world_example
     = (Inl TypeError, world_example)"
proof -
  have n: "find_el ''ImprovementSuggestions'' review_no_suggestions = None"
    by (simp add: review_no_suggestions_def find_el_def)
  have p: "fromstring platform_example xml_no_suggestions = Inr review_no_suggestions"
    by (simp add: platform_example_def parse_no_suggestions)
  have a: "add_content_to_html ''<html><body><div>'' review_no_suggestions = Inl TypeError"
    by (simp add: review_no_suggestions_def add_content_to_html_def find_el_def)
  have hyp: "find_el ''GeneralObservations'' review_no_suggestions = None \<or>
        find_el ''SpecificComments'' review_no_suggestions = None \<or>
        find_el ''ImprovementSuggestions'' review_no_suggestions = None" using n by simp
  from generate_report_missing_group[OF hyp, of "''<html><body><div>''" platform_example
      xml_no_suggestions "[''out'']" world_example] p
  obtain e where g: "generate_report platform_example xml_no_suggestions [''out''] world_example
      = (Inl e, world_example)" by blast
  have "generate_report platform_example xml_no_suggestions [''out''] world_example
      = (Inl TypeError, world_example)"
    by (simp add: generate_report_def p template_example a)
  with g have "e = TypeError" by simp
  then show ?thesis using g n p a by blast
qed

text \<open>
  Claim C3. When the review text does not parse as XML, or a child of the comments group
  has no Location or no Feedback child, \<^const>\<open>generate_report\<close> fails with an error and
  the world it returns is the world it was given: no directory is created, no file is
  written, and an earlier report keeps its content.
\<close>

theorem generate_report_malformed:
  assumes "(\<exists>e. fromstring pf review = Inl e) \<or>
           (\<exists>root sc cm. fromstring pf review = Inr root \<and>
              find_el ''SpecificComments'' root = Some sc \<and> cm \<in> set (children sc) \<and>
              (find_el ''Location'' cm = None \<or> find_el ''Feedback'' cm = None))"
  shows "\<exists>e. generate_report pf review output_dir w = (Inl e, w)"
  using assms
proof
  assume "\<exists>e. fromstring pf review = Inl e"
  then show ?thesis by (auto simp: generate_report_def)
next
  assume "\<exists>root sc cm. fromstring pf review = Inr root \<and>
              find_el ''SpecificComments'' root = Some sc \<and> cm \<in> set (children sc) \<and>
              (find_el ''Location'' cm = None \<or> find_el ''Feedback'' cm = None)"
  then obtain root sc cm where r: "fromstring pf review = Inr root"
    and sc: "find_el ''SpecificComments'' root = Some sc" and cm: "cm \<in> set (children sc)"
    and miss: "find_el ''Location'' cm = None \<or> find_el ''Feedback'' cm = None" by blast
  show ?thesis
    by (rule generate_report_render_fail[OF r]) (rule add_content_to_html_bad_comment[OF sc cm miss])
qed

theorem generate_report_malformed_witness:
  "fromstring platform_example ''not xml'' = Inl ParseError \<and>
   generate_report platform_example ''not xml'' [''out''] world_example
     = (Inl ParseError, world_example) \<and>
   fromstring platform_example xml_no_feedback = Inr review_no_feedback \<and>
   generate_report platform_example xml_no_feedback [''out''] world_example
     = (Inl AttributeError, world_example) \<and>
   files world_example [''out'', ''code_review.html''] = Some ''old report''"
proof -
  have p1: "fromstring platform_example ''not xml'' = Inl ParseError"
    by (simp add: platform_example_def parse_garbage)
  have p2: "fromstring platform_example xml_no_feedback = Inr review_no_feedback"
    by (simp add: platform_example_def parse_no_feedback)
  let ?cm = "Element ''Comment'' None [Element ''Location'' (Some ''line 3'') []]"
  let ?sc = "Element ''SpecificComments'' None [?cm]"
  have sc: "find_el ''SpecificComments'' review_no_feedback = Some ?sc"
    by (simp add: review_no_feedback_def find_el_def)
  have cm: "?cm \<in> set (children ?sc)" by simp
  have nf: "find_el ''Location'' ?cm = None \<or> find_el ''Feedback'' ?cm = None"
    by (simp add: find_el_def)
  have h1: "(\<exists>e. fromstring platform_example ''not xml'' = Inl e) \<or>
           (\<exists>root sc cm. fromstring platform_example ''not xml'' = Inr root \<and>
              find_el ''SpecificComments'' root = Some sc \<and> cm \<in> set (children sc) \<and>
              (find_el ''Location'' cm = None \<or> find_el ''Feedback'' cm = None))"
    using p1 by blast
  have h2: "(\<exists>e. fromstring platform_example xml_no_feedback = Inl e) \<or>
           (\<exists>root sc cm. fromstring platform_example xml_no_feedback = Inr root \<and>
              find_el ''SpecificComments'' root = Some sc \<and> cm \<in> set (children sc) \<and>
              (find_el ''Location'' cm = None \<or> find_el ''Feedback'' cm = None))"
    using p2 sc cm nf by blast
  obtain e1 where g1: "generate_report platform_example ''not xml'' [''out''] world_example
      = (Inl e1, world_example)"
    using generate_report_malformed[OF h1] by blast
  obtain e2 where g2: "generate_report platform_example xml_no_feedback [''out''] world_example
      = (Inl e2, world_example)"
    using generate_report_malformed[OF h2] by blast
  have e1: "e1 = ParseError" using g1 p1 by (simp add: generate_report_def)
  have a: "add_content_to_html ''<html><body><div>'' review_no_feedback = Inl AttributeError"
    by (simp add: review_no_feedback_def add_content_to_html_def find_el_def)
  have e2: "e2 = AttributeError" using g2 p2 by (simp add: generate_report_def template_example a)
  have old: "files world_example [''out'', ''code_review.html''] = Some ''old report''"
    by (simp add: world_example_def)
  show ?thesis using p1 p2 g1 g2 e1 e2 old by blast
qed

section \<open>Properties of the pipeline\<close>

text \<open>
  Logging changes neither the files, the directories nor the requests, and no step of the
  pipeline reads the level or the records of the logger: two worlds with the same effects
  give the same result and the same effects.
\<close>

lemma effects_logger_log [simp]: "effects (logger_log lvl name msg w) = effects w"
  by (simp add: effects_def logger_log_def)

lemma effects_logger_info [simp]: "effects (logger_info msg w) = effects w"
  by (simp add: logger_info_def)

lemma effects_logger_error [simp]: "effects (logger_error msg w) = effects w"
  by (simp add: logger_error_def)

lemma effects_logger_debug [simp]: "effects (logger_debug msg w) = effects w"
  by (simp add: logger_debug_def)

lemma effects_setLevel [simp]: "effects (setLevel lvl w) = effects w"
  by (simp add: effects_def setLevel_def)

lemma effects_eqD:
  "effects w = effects w' \<Longrightarrow> files w = files w' \<and> dirs w = dirs w' \<and> requests w = requests w'"
  by (simp add: effects_def)

lemma get_file_effects [simp]: "effects (snd (get_file p w)) = effects w"
  by (simp add: get_file_def Let_def split: sum.splits)

lemma get_file_cong:
  "effects w = effects w' \<Longrightarrow> fst (get_file p w) = fst (get_file p w')"
  by (auto simp: get_file_def Let_def isfile_def open_read_def dest!: effects_eqD split: sum.splits option.splits)

lemma get_review_cong:
  "effects w = effects w' \<Longrightarrow>
   fst (get_review c cl w) = fst (get_review c cl w') \<and>
   effects (snd (get_review c cl w)) = effects (snd (get_review c cl w'))"
  by (simp add: get_review_def Let_def effects_def)

lemma makedirs_cong:
  "effects w = effects w' \<Longrightarrow>
   fst (makedirs p w) = fst (makedirs p w') \<and>
   effects (snd (makedirs p w)) = effects (snd (makedirs p w'))"
  by (simp add: makedirs_def effects_def)

lemma open_write_cong:
  "effects w = effects w' \<Longrightarrow>
   fst (open_write p c w) = fst (open_write p c w') \<and>
   effects (snd (open_write p c w)) = effects (snd (open_write p c w'))"
  by (simp add: open_write_def effects_def)

lemma generate_report_rendered:
  assumes "fromstring pf review = Inr root"
    and "open_read w (html_template_path pf) = Inr tpl"
    and "add_content_to_html tpl root = Inr html"
  shows "generate_report pf review out w =
     (case (if \<not> path_exists w out then makedirs out w else (Inr (), w)) of
        (Inl e, w1) \<Rightarrow> (Inl e, w1)
      | (Inr u, w1) \<Rightarrow>
          (case open_write (join out ''code_review.html'') html w1 of
             (Inl e, w2) \<Rightarrow> (Inl e, w2)
           | (Inr u, w2) \<Rightarrow>
               (Inr (), logger_info (''Report saved in '' @ path_str (join out ''code_review.html'')) w2)))"
  unfolding generate_report_def Let_def using assms
  by (simp split del: if_split cong: if_cong)

lemma generate_report_cong:
  assumes e: "effects w = effects w'"
  shows "fst (generate_report pf review out w) = fst (generate_report pf review out w') \<and>
         effects (snd (generate_report pf review out w)) = effects (snd (generate_report pf review out w'))"
proof (cases "fromstring pf review")
  case (Inl err)
  then show ?thesis using e by (simp add: generate_report_def)
next
  case (Inr root)
  have r: "open_read w (html_template_path pf) = open_read w' (html_template_path pf)"
    using effects_eqD[OF e] by (simp add: open_read_def)
  show ?thesis
  proof (cases "open_read w (html_template_path pf)")
    case (Inl err)
    then have "open_read w' (html_template_path pf) = Inl err" using r by simp
    then show ?thesis using e Inr Inl by (simp add: generate_report_def)
  next
    case tpl: (Inr tpl)
    then have tpl': "open_read w' (html_template_path pf) = Inr tpl" using r by simp
    show ?thesis
    proof (cases "add_content_to_html tpl root")
      case (Inl err)
      then show ?thesis using e Inr tpl tpl' by (simp add: generate_report_def)
    next
      case html: (Inr html)
      let ?m = "\<lambda>w. if \<not> path_exists w out then makedirs out w else (Inr (), w)"
      let ?target = "join out ''code_review.html''"
      have pe: "path_exists w out = path_exists w' out"
        using effects_eqD[OF e] by (simp add: path_exists_def)
      obtain rm wm where mw: "?m w = (rm, wm)" by (cases "?m w")
      obtain rm' wm' where mw': "?m w' = (rm', wm')" by (cases "?m w'")
      have "fst (?m w) = fst (?m w')" "effects (snd (?m w)) = effects (snd (?m w'))"
        using pe makedirs_cong[OF e, of out] e by auto
      then have rm: "rm' = rm" and em: "effects wm = effects wm'" using mw mw' by simp_all
      obtain ro wo where ow: "open_write ?target html wm = (ro, wo)"
        by (cases "open_write ?target html wm")
      obtain ro' wo' where ow': "open_write ?target html wm' = (ro', wo')"
        by (cases "open_write ?target html wm'")
      have ro: "ro' = ro" and eo: "effects wo = effects wo'"
        using open_write_cong[OF em, of ?target html] ow ow' by simp_all
      have g: "generate_report pf review out w =
          (case rm of Inl e \<Rightarrow> (Inl e, wm)
           | Inr u \<Rightarrow> (case ro of Inl e \<Rightarrow> (Inl e, wo)
              | Inr u \<Rightarrow> (Inr (), logger_info (''Report saved in '' @ path_str ?target) wo)))"
        unfolding generate_report_rendered[OF Inr tpl html] mw
        by (simp add: ow split: sum.splits)
      have g': "generate_report pf review out w' =
          (case rm of Inl e \<Rightarrow> (Inl e, wm')
           | Inr u \<Rightarrow> (case ro of Inl e \<Rightarrow> (Inl e, wo')
              | Inr u \<Rightarrow> (Inr (), logger_info (''Report saved in '' @ path_str ?target) wo')))"
        unfolding generate_report_rendered[OF Inr tpl' html] mw'
        by (simp add: ow' rm ro split: sum.splits)
      show ?thesis unfolding g g' using em eo by (simp split: sum.splits)
    qed
  qed
qed

lemma main_cong:
  assumes e: "effects w = effects w'"
  shows "fst (main pf i out w) = fst (main pf i out w') \<and>
         effects (snd (main pf i out w)) = effects (snd (main pf i out w'))"
proof (cases "OpenAI pf")
  case (Inl err)
  then show ?thesis using e by (simp add: main_def Let_def)
next
  case cl: (Inr cl)
  let ?w1 = "logger_info ''Getting file content'' (logger_info ''Creating OpenAI client'' w)"
  let ?w1' = "logger_info ''Getting file content'' (logger_info ''Creating OpenAI client'' w')"
  have e1: "effects ?w1 = effects ?w1'" using e by simp
  obtain rf wf where gf: "get_file i ?w1 = (rf, wf)" by (cases "get_file i ?w1")
  obtain rf' wf' where gf': "get_file i ?w1' = (rf', wf')" by (cases "get_file i ?w1'")
  have rf: "rf' = rf" using get_file_cong[OF e1, of i] gf gf' by simp
  have ef: "effects wf = effects wf'"
    using get_file_effects[of i ?w1] get_file_effects[of i ?w1'] gf gf' e1 by simp
  show ?thesis
  proof (cases rf)
    case (Inl err)
    then show ?thesis using cl gf gf' rf ef by (simp add: main_def Let_def)
  next
    case content: (Inr content)
    let ?w2 = "logger_info ''Getting review'' wf" and ?w2' = "logger_info ''Getting review'' wf'"
    have e2: "effects ?w2 = effects ?w2'" using ef by simp
    obtain rr wr where gr: "get_review content cl ?w2 = (rr, wr)"
      by (cases "get_review content cl ?w2")
    obtain rr' wr' where gr': "get_review content cl ?w2' = (rr', wr')"
      by (cases "get_review content cl ?w2'")
    have rr: "rr' = rr" and er: "effects wr = effects wr'"
      using get_review_cong[OF e2, of content cl] gr gr' by simp_all
    show ?thesis
    proof (cases rr)
      case (Inl err)
      then show ?thesis using cl gf gf' rf content gr gr' rr er by (simp add: main_def Let_def)
    next
      case review: (Inr review)
      let ?w3 = "logger_info ''Generating report'' wr" and ?w3' = "logger_info ''Generating report'' wr'"
      have e3: "effects ?w3 = effects ?w3'" using er by simp
      obtain rg wg where gg: "generate_report pf review out ?w3 = (rg, wg)"
        by (cases "generate_report pf review out ?w3")
      obtain rg' wg' where gg': "generate_report pf review out ?w3' = (rg', wg')"
        by (cases "generate_report pf review out ?w3'")
      have rg: "rg' = rg" and eg: "effects wg = effects wg'"
        using generate_report_cong[OF e3, of pf review out] gg gg' by simp_all
      show ?thesis using cl gf gf' rf content gr gr' rr review gg gg' rg eg
        by (simp add: main_def Let_def split: sum.splits)
    qed
  qed
qed

lemma get_file_missing:
  assumes "files w (normpath p) = None"
  shows "get_file p w =
     (Inl (FileNotFoundError (''File '' @ path_str (normpath p) @ '' not found'')),
      logger_error (''File '' @ path_str (normpath p) @ '' not found'') w)"
  using assms by (simp add: get_file_def isfile_def Let_def)

lemma effects_eq_iff:
  "effects w = effects w' \<longleftrightarrow> files w = files w' \<and> dirs w = dirs w' \<and> requests w = requests w'"
  by (auto simp: effects_def)

lemma logger_log_fields [simp]:
  "files (logger_log lvl name msg w) = files w"
  "dirs (logger_log lvl name msg w) = dirs w"
  "requests (logger_log lvl name msg w) = requests w"
  by (simp_all add: logger_log_def)

lemma logger_info_fields [simp]:
  "files (logger_info msg w) = files w"
  "dirs (logger_info msg w) = dirs w"
  "requests (logger_info msg w) = requests w"
  by (simp_all add: logger_info_def)

lemma target_not_prefix: "join out name \<notin> set (prefixes out)"
proof
  assume "join out name \<in> set (prefixes out)"
  then have "prefix (out @ [name]) out" by (simp add: join_def)
  then have "length (out @ [name]) \<le> length out" by (rule prefix_length_le)
  then show False by simp
qed

lemma generate_report_writes_once:
  assumes p: "fromstring pf review = Inr root"
    and t: "open_read w (html_template_path pf) = Inr tpl"
    and h: "add_content_to_html tpl root = Inr html"
    and ne: "output_dir \<noteq> []"
    and nofile: "\<forall>q \<in> set (prefixes output_dir). files w q = None"
    and nodir: "join output_dir ''code_review.html'' \<notin> dirs w"
  shows "generate_report pf review output_dir w =
     (Inr (),
      logger_info (''Report saved in '' @ path_str (join output_dir ''code_review.html''))
        (w\<lparr>dirs := (if output_dir \<in> dirs w then dirs w else dirs w \<union> set (prefixes output_dir)),
           files := (files w)(join output_dir ''code_review.html'' \<mapsto> html)\<rparr>))"
proof -
  let ?target = "join output_dir ''code_review.html''"
  have self: "files w output_dir = None" using nofile by simp
  have bl: "butlast ?target = output_dir" by (simp add: join_def)
  show ?thesis
  proof (cases "output_dir \<in> dirs w")
    case True
    then have m: "(if \<not> path_exists w output_dir then makedirs output_dir w else (Inr (), w)) = (Inr (), w)"
      using ne by (simp add: path_exists_def)
    have ow: "open_write ?target html w = (Inr (), w\<lparr>files := (files w)(?target \<mapsto> html)\<rparr>)"
      using True self nodir by (simp add: open_write_def bl)
    show ?thesis
      unfolding generate_report_rendered[OF p t h] m using True by (simp add: ow)
  next
    case False
    have nl: "\<not> list_ex (\<lambda>q. files w q \<noteq> None) (prefixes output_dir)"
      using nofile by (simp add: list_ex_iff)
    have m: "(if \<not> path_exists w output_dir then makedirs output_dir w else (Inr (), w))
          = (Inr (), w\<lparr>dirs := dirs w \<union> set (prefixes output_dir)\<rparr>)"
      using False self nl ne by (simp add: path_exists_def makedirs_def)
    have ow: "open_write ?target html (w\<lparr>dirs := dirs w \<union> set (prefixes output_dir)\<rparr>)
          = (Inr (), w\<lparr>dirs := dirs w \<union> set (prefixes output_dir),
                          files := (files w)(?target \<mapsto> html)\<rparr>)"
      using self nodir target_not_prefix[of output_dir "''code_review.html''"]
      by (simp add: open_write_def bl)
    show ?thesis
      unfolding generate_report_rendered[OF p t h] m using False by (simp add: ow)
  qed
qed

lemma template_not_target:
  "html_template_path pf \<noteq> join output_dir ''code_review.html''"
  by (simp add: html_template_path_def join_def)

lemma open_read_cong: "files w = files w' \<Longrightarrow> dirs w = dirs w' \<Longrightarrow> open_read w p = open_read w' p"
  by (simp add: open_read_def)

lemma main_success:
  assumes cl: "OpenAI pf = Inr cl"
    and inp: "files w (normpath input_file) = Some content"
    and reply: "cl ''gpt-3.5-turbo''
        [(''system'', system_content ''English''),
         (''user'', concat (map numbered (enumerate 0 (readlines content))))] = Inr review"
    and p: "fromstring pf review = Inr root"
    and t: "open_read w (html_template_path pf) = Inr tpl"
    and h: "add_content_to_html tpl root = Inr html"
    and ne: "output_dir \<noteq> []"
    and nofile: "\<forall>q \<in> set (prefixes output_dir). files w q = None"
    and nodir: "join output_dir ''code_review.html'' \<notin> dirs w"
  shows "fst (main pf input_file output_dir w) = Inr () \<and>
         files (snd (main pf input_file output_dir w)) =
           (files w)(join output_dir ''code_review.html'' \<mapsto> html) \<and>
         dirs (snd (main pf input_file output_dir w)) =
           (if output_dir \<in> dirs w then dirs w else dirs w \<union> set (prefixes output_dir)) \<and>
         requests (snd (main pf input_file output_dir w)) =
           requests w @ [(''gpt-3.5-turbo'',
             [(''system'', system_content ''English''),
              (''user'', concat (map numbered (enumerate 0 (readlines content))))])]"
proof -
  let ?numbered = "concat (map numbered (enumerate 0 (readlines content)))"
  let ?msgs = "[(''system'', system_content ''English''), (''user'', ?numbered)]"
  let ?w1 = "logger_info ''Getting file content'' (logger_info ''Creating OpenAI client'' w)"
  let ?w2 = "logger_info ''Getting review''
       (logger_info (''File '' @ path_str (normpath input_file) @ '' loaded'') ?w1)"
  let ?w3 = "?w2\<lparr>requests := requests ?w2 @ [(''gpt-3.5-turbo'', ?msgs)]\<rparr>"
  let ?w4 = "logger_info ''Generating report'' ?w3"
  let ?target = "join output_dir ''code_review.html''"
  have gf: "get_file input_file ?w1 =
      (Inr ?numbered, logger_info (''File '' @ path_str (normpath input_file) @ '' loaded'') ?w1)"
    using inp by (simp add: get_file_def isfile_def open_read_def Let_def)
  have gr: "get_review ?numbered cl ?w2 = (Inr review, ?w3)"
    using reply by (simp add: get_review_def Let_def)
  have f4: "files ?w4 = files w" and d4: "dirs ?w4 = dirs w"
    and r4: "requests ?w4 = requests w @ [(''gpt-3.5-turbo'', ?msgs)]" by simp_all
  have t4: "open_read ?w4 (html_template_path pf) = Inr tpl"
    using t open_read_cong[OF f4 d4] by simp
  have nofile4: "\<forall>q \<in> set (prefixes output_dir). files ?w4 q = None"
    unfolding f4 by (rule nofile)
  have nodir4: "?target \<notin> dirs ?w4" unfolding d4 by (rule nodir)
  let ?w5 = "logger_info (''Report saved in '' @ path_str ?target)
        (?w4\<lparr>dirs := (if output_dir \<in> dirs ?w4 then dirs ?w4 else dirs ?w4 \<union> set (prefixes output_dir)),
             files := (files ?w4)(?target \<mapsto> html)\<rparr>)"
  have gg: "generate_report pf review output_dir ?w4 = (Inr (), ?w5)"
    by (rule generate_report_writes_once[OF p t4 h ne nofile4 nodir4])
  have m: "main pf input_file output_dir w = (Inr (), logger_info ''Done'' ?w5)"
    unfolding main_def Let_def by (simp only: cl sum.case gf prod.case gr gg)
  have f5: "files ?w5 = (files w)(?target \<mapsto> html)" by simp
  have d5: "dirs ?w5 = (if output_dir \<in> dirs w then dirs w else dirs w \<union> set (prefixes output_dir))"
    by simp
  have r5: "requests ?w5 = requests w @ [(''gpt-3.5-turbo'', ?msgs)]" by simp
  show ?thesis unfolding m using f5 d5 r5 by simp
qed

text \<open>
  Claim C4. For every path that is not an existing regular file, \<^const>\<open>get_file\<close> raises
  the file-not-found error. In \<^const>\<open>main\<close> this aborts the run before the review is
  requested: the run ends with an error (the file-not-found error whenever the client
  could be constructed; the error of the constructor otherwise, which is raised even
  earlier), no request is sent to the remote service, and no directory or file is
  created or changed.
\<close>

theorem main_missing_input:
  assumes "files w (normpath input_file) = None"
  shows "fst (get_file input_file w) =
           Inl (FileNotFoundError (''File '' @ path_str (normpath input_file) @ '' not found'')) \<and>
         (\<exists>e. fst (main pf input_file output_dir w) = Inl e) \<and>
         (\<forall>client. OpenAI pf = Inr client \<longrightarrow>
            fst (main pf input_file output_dir w) =
              Inl (FileNotFoundError (''File '' @ path_str (normpath input_file) @ '' not found''))) \<and>
         requests (snd (main pf input_file output_dir w)) = requests w \<and>
         files (snd (main pf input_file output_dir w)) = files w \<and>
         dirs (snd (main pf input_file output_dir w)) = dirs w"
proof -
  let ?w1 = "logger_info ''Getting file content'' (logger_info ''Creating OpenAI client'' w)"
  let ?err = "FileNotFoundError (''File '' @ path_str (normpath input_file) @ '' not found'')"
  have f1: "files ?w1 (normpath input_file) = None"
    using assms by (simp add: logger_info_def logger_log_def)
  have gf: "get_file input_file ?w1 = (Inl ?err, logger_error (''File '' @ path_str (normpath input_file) @ '' not found'') ?w1)"
    by (rule get_file_missing[OF f1])
  have a: "fst (get_file input_file w) = Inl ?err" by (simp add: get_file_missing[OF assms])
  show ?thesis
  proof (cases "OpenAI pf")
    case (Inl e)
    then have m: "main pf input_file output_dir w = (Inl e, logger_info ''Creating OpenAI client'' w)"
      by (simp add: main_def Let_def)
    have "effects (snd (main pf input_file output_dir w)) = effects w" by (simp add: m)
    from effects_eqD[OF this] have fx: "files (snd (main pf input_file output_dir w)) = files w"
      "dirs (snd (main pf input_file output_dir w)) = dirs w"
      "requests (snd (main pf input_file output_dir w)) = requests w" by simp_all
    have fm: "fst (main pf input_file output_dir w) = Inl e" by (simp add: m)
    show ?thesis using a fx fm Inl by simp
  next
    case (Inr client)
    then have m: "main pf input_file output_dir w =
        (Inl ?err, logger_error (''File '' @ path_str (normpath input_file) @ '' not found'') ?w1)"
      by (simp add: main_def Let_def gf)
    have "effects (snd (main pf input_file output_dir w)) = effects w" by (simp add: m)
    from effects_eqD[OF this] have fx: "files (snd (main pf input_file output_dir w)) = files w"
      "dirs (snd (main pf input_file output_dir w)) = dirs w"
      "requests (snd (main pf input_file output_dir w)) = requests w" by simp_all
    have fm: "fst (main pf input_file output_dir w) = Inl ?err" by (simp add: m)
    show ?thesis using a fx fm Inr by simp
  qed
qed

theorem main_missing_input_witness:
  "files world_example (normpath [''missing.py'']) = None \<and>
   fst (get_file [''missing.py''] world_example) =
     Inl (FileNotFoundError ''File missing.py not found'') \<and>
   fst (main platform_example [''missing.py''] [''out''] world_example) =
     Inl (FileNotFoundError ''File missing.py not found'') \<and>
   requests (snd (main platform_example [''missing.py''] [''out''] world_example)) = [] \<and>
   files (snd (main platform_example [''missing.py''] [''out''] world_example)) = files world_example \<and>
   dirs (snd (main platform_example [''missing.py''] [''out''] world_example)) = dirs world_example \<and>
   files world_example [''out'', ''code_review.html''] = Some ''old report''"
proof -
  have h: "files world_example (normpath [''missing.py'']) = None"
    by (simp add: world_example_def normpath_def)
  have c: "OpenAI platform_example = Inr (\<lambda>model messages. Inr xml_commented)"
    by (simp add: platform_example_def)
  have r: "requests world_example = []" by (simp add: world_example_def)
  have o: "files world_example [''out'', ''code_review.html''] = Some ''old report''"
    by (simp add: world_example_def)
  have n: "path_str (normpath [''missing.py'']) = ''missing.py''" by (simp add: normpath_def)
  from main_missing_input[OF h, of platform_example "[''out'']"] c
  show ?thesis using h r o by (simp add: n)
qed

lemma html_commented:
  "add_content_to_html ''<html><body><div>'' review_commented =
     Inr (''<html><body><div>'' @
          ''<h2>General Observations</h2><ul><li>Good naming</li></ul>'' @
          ''<h2>Specific Comments</h2><ul><li><strong>line 3:</strong> a < b & c is <b>odd</b></li></ul>'' @
          ''<h2>Improvement Suggestions</h2><ul><li>Add tests</li></ul>'' @
          ''</div></body></html>'')"
  by (simp add: review_commented_def add_content_to_html_def find_el_def)

lemma parse_example: "parse_table xml_example = Inr review_example"
  by (simp add: parse_table_def xml_commented_def xml_example_def)

lemma run_example_records:
  "records (snd (run platform_example False [''in.py''] [''out''] world_example)) =
     [(''INFO'', ''Creating OpenAI client''), (''INFO'', ''Getting file content''),
      (''INFO'', ''File in.py loaded''), (''INFO'', ''Getting review''),
      (''INFO'', ''Generating report''), (''INFO'', ''Report saved in out/code_review.html''),
      (''INFO'', ''Done'')]"
  unfolding run_def main_def Let_def
  by (simp add: platform_example_def parse_commented get_file_def isfile_def normpath_def
      open_read_def get_review_def generate_report_def html_template_path_def join_def
      html_commented path_exists_def open_write_def
      setLevel_def logger_info_def logger_debug_def logger_log_def INFO_def DEBUG_def
      world_example_def)

lemma run_example_records_verbose:
  "records (snd (run platform_example True [''in.py''] [''out''] world_example)) =
     [(''DEBUG'', ''Verbose mode activated''),
      (''INFO'', ''Creating OpenAI client''), (''INFO'', ''Getting file content''),
      (''INFO'', ''File in.py loaded''), (''INFO'', ''Getting review''),
      (''INFO'', ''Generating report''), (''INFO'', ''Report saved in out/code_review.html''),
      (''INFO'', ''Done'')]"
  unfolding run_def main_def Let_def
  by (simp add: platform_example_def parse_commented get_file_def isfile_def normpath_def
      open_read_def get_review_def generate_report_def html_template_path_def join_def
      html_commented path_exists_def open_write_def
      setLevel_def logger_info_def logger_debug_def logger_log_def INFO_def DEBUG_def
      world_example_def)


lemma run_example_result:
  "fst (run platform_example False [''in.py''] [''out''] world_example) = Inr ()"
  unfolding run_def main_def Let_def
  by (simp add: platform_example_def parse_commented get_file_def isfile_def normpath_def
      open_read_def get_review_def generate_report_def html_template_path_def join_def
      html_commented path_exists_def open_write_def
      setLevel_def logger_info_def logger_debug_def logger_log_def INFO_def DEBUG_def
      world_example_def)

lemma run_example_report:
  "files (snd (run platform_example False [''in.py''] [''out''] world_example))
     [''out'', ''code_review.html''] =
     Some (''<html><body><div>'' @
          ''<h2>General Observations</h2><ul><li>Good naming</li></ul>'' @
          ''<h2>Specific Comments</h2><ul><li><strong>line 3:</strong> a < b & c is <b>odd</b></li></ul>'' @
          ''<h2>Improvement Suggestions</h2><ul><li>Add tests</li></ul>'' @
          ''</div></body></html>'')"
  unfolding run_def main_def Let_def
  by (simp add: platform_example_def parse_commented get_file_def isfile_def normpath_def
      open_read_def get_review_def generate_report_def html_template_path_def join_def
      html_commented path_exists_def open_write_def
      setLevel_def logger_info_def logger_debug_def logger_log_def INFO_def DEBUG_def
      world_example_def)

lemma prefixes_reports:
  "set (prefixes [''reports'', ''2024'']) = {[], [''reports''], [''reports'', ''2024'']}"
  by auto

text \<open>
  Claim C8. Two runs of the script on the same platform (so the same reply of the remote
  service), the same world, the same input file and the same output directory, one with
  the verbosity flag and one without, end with the same result and leave the same files
  (so the same report), the same directories and the same requests behind. Only the log
  differs: in the witness the verbose run logs one more line, at level DEBUG.
\<close>

theorem run_verbose_same_output:
  "fst (run pf True input_file output_path w) = fst (run pf False input_file output_path w) \<and>
   files (snd (run pf True input_file output_path w)) = files (snd (run pf False input_file output_path w)) \<and>
   dirs (snd (run pf True input_file output_path w)) = dirs (snd (run pf False input_file output_path w)) \<and>
   requests (snd (run pf True input_file output_path w)) = requests (snd (run pf False input_file output_path w))"
proof -
  let ?wv = "logger_debug ''Verbose mode activated'' (setLevel DEBUG (setLevel INFO w))"
  let ?wq = "setLevel INFO w"
  have "effects ?wv = effects ?wq" by simp
  from main_cong[OF this, of pf input_file output_path]
  show ?thesis by (simp add: run_def Let_def effects_def)
qed

theorem run_verbose_same_output_witness:
  "fst (run platform_example True [''in.py''] [''out''] world_example) = Inr () \<and>
   files (snd (run platform_example True [''in.py''] [''out''] world_example))
     [''out'', ''code_review.html''] =
     Some (''<html><body><div>'' @
          ''<h2>General Observations</h2><ul><li>Good naming</li></ul>'' @
          ''<h2>Specific Comments</h2><ul><li><strong>line 3:</strong> a < b & c is <b>odd</b></li></ul>'' @
          ''<h2>Improvement Suggestions</h2><ul><li>Add tests</li></ul>'' @
          ''</div></body></html>'') \<and>
   files (snd (run platform_example True [''in.py''] [''out''] world_example)) =
     files (snd (run platform_example False [''in.py''] [''out''] world_example)) \<and>
   dirs (snd (run platform_example True [''in.py''] [''out''] world_example)) =
     dirs (snd (run platform_example False [''in.py''] [''out''] world_example)) \<and>
   requests (snd (run platform_example True [''in.py''] [''out''] world_example)) =
     requests (snd (run platform_example False [''in.py''] [''out''] world_example)) \<and>
   records (snd (run platform_example True [''in.py''] [''out''] world_example)) =
     (''DEBUG'', ''Verbose mode activated'') #
     records (snd (run platform_example False [''in.py''] [''out''] world_example))"
  using run_verbose_same_output[of platform_example "[''in.py'']" "[''out'']" world_example]
    run_example_result run_example_report run_example_records run_example_records_verbose
  by simp

text \<open>
  Claim C6, as amended. For every review that parses and renders, and every output
  directory path that is not empty, on which and on whose parents no regular file stands,
  and whose entry \<^verbatim>\<open>code_review.html\<close> is not a directory, \<^const>\<open>generate_report\<close> succeeds,
  creates the directory and its parents when the directory is absent (and no directory
  otherwise), and writes the report to \<^verbatim>\<open>code_review.html\<close> in it, over any file of that
  name, all other files unchanged. A second run against the same directory with another
  review succeeds too, and the file then holds the second rendering only.

  The claim as stated, for every output directory path, fails: the check before
  \<^verbatim>\<open>os.makedirs\<close> is \<^verbatim>\<open>os.path.exists\<close> only, and nothing is caught. The counterexample runs
  \<^const>\<open>generate_report\<close> on a review that renders, with four output paths: a regular file
  (the path exists, so nothing is created, and opening the report fails); an absent path
  below a regular file (\<^verbatim>\<open>os.makedirs\<close> fails); the empty path (it does not exist, and
  \<^verbatim>\<open>os.makedirs\<close> fails on it); a directory in which \<^verbatim>\<open>code_review.html\<close> is a directory
  (opening the report fails). Each run ends with an error and leaves the files and
  directories as they were.
\<close>

theorem generate_report_writes:
  assumes "fromstring pf review = Inr root"
    and "open_read w (html_template_path pf) = Inr tpl"
    and "add_content_to_html tpl root = Inr html"
    and "fromstring pf review' = Inr root'"
    and "add_content_to_html tpl root' = Inr html'"
    and "output_dir \<noteq> []"
    and "\<forall>q \<in> set (prefixes output_dir). files w q = None"
    and "join output_dir ''code_review.html'' \<notin> dirs w"
  shows "\<exists>w1 w2.
      generate_report pf review output_dir w = (Inr (), w1) \<and>
      output_dir \<in> dirs w1 \<and>
      dirs w1 = (if output_dir \<in> dirs w then dirs w else dirs w \<union> set (prefixes output_dir)) \<and>
      files w1 = (files w)(join output_dir ''code_review.html'' \<mapsto> html) \<and>
      generate_report pf review' output_dir w1 = (Inr (), w2) \<and>
      dirs w2 = dirs w1 \<and>
      files w2 = (files w)(join output_dir ''code_review.html'' \<mapsto> html')"
proof -
  let ?target = "join output_dir ''code_review.html''"
  let ?d1 = "if output_dir \<in> dirs w then dirs w else dirs w \<union> set (prefixes output_dir)"
  let ?w1 = "logger_info (''Report saved in '' @ path_str ?target)
        (w\<lparr>dirs := ?d1, files := (files w)(?target \<mapsto> html)\<rparr>)"
  have g1: "generate_report pf review output_dir w = (Inr (), ?w1)"
    by (rule generate_report_writes_once[OF assms(1,2,3,6,7,8)])
  have e1: "effects ?w1 = ((files w)(?target \<mapsto> html), ?d1, requests w)"
    by (simp add: effects_def)
  then have f1: "files ?w1 = (files w)(?target \<mapsto> html)" and d1: "dirs ?w1 = ?d1"
    by (simp_all add: effects_def)
  have in1: "output_dir \<in> dirs ?w1" unfolding d1 by simp
  have t1: "open_read ?w1 (html_template_path pf) = Inr tpl"
    using assms(2) template_not_target[of pf output_dir]
    by (auto simp: open_read_def f1 split: option.splits if_splits)
  have nofile1: "\<forall>q \<in> set (prefixes output_dir). files ?w1 q = None"
    unfolding f1 using assms(7) target_not_prefix[of output_dir "''code_review.html''"] by auto
  have nodir1: "?target \<notin> dirs ?w1"
    unfolding d1 using assms(8) target_not_prefix[of output_dir "''code_review.html''"] by simp
  let ?w2 = "logger_info (''Report saved in '' @ path_str ?target)
        (?w1\<lparr>dirs := (if output_dir \<in> dirs ?w1 then dirs ?w1 else dirs ?w1 \<union> set (prefixes output_dir)),
           files := (files ?w1)(?target \<mapsto> html')\<rparr>)"
  have g2: "generate_report pf review' output_dir ?w1 = (Inr (), ?w2)"
    by (rule generate_report_writes_once[OF assms(4) t1 assms(5,6) nofile1 nodir1])
  have e2: "effects ?w2 = ((files ?w1)(?target \<mapsto> html'), dirs ?w1, requests ?w1)"
    using in1 by (simp add: effects_def)
  have f2: "files ?w2 = (files w)(?target \<mapsto> html')" using e2 f1 by (simp add: effects_def)
  have d2: "dirs ?w2 = dirs ?w1" using e2 by (simp add: effects_def)
  show ?thesis using g1 in1 d1 f1 g2 d2 f2 by blast
qed

theorem generate_report_writes_witness:
  "[''reports'', ''2024''] \<notin> dirs world_example \<and>
   (\<exists>w1 w2.
      generate_report platform_example xml_example [''reports'', ''2024''] world_example = (Inr (), w1) \<and>
      [''reports''] \<in> dirs w1 \<and> [''reports'', ''2024''] \<in> dirs w1 \<and>
      files w1 [''reports'', ''2024'', ''code_review.html''] =
        Some (''<html><body><div><h2>General Observations</h2><ul><li>Good naming</li></ul>'' @
          ''<h2>Specific Comments</h2><ul></ul>'' @
          ''<h2>Improvement Suggestions</h2><ul><li>Add tests</li></ul></div></body></html>'') \<and>
      generate_report platform_example xml_commented [''reports'', ''2024''] w1 = (Inr (), w2) \<and>
      files w2 [''reports'', ''2024'', ''code_review.html''] =
        Some (''<html><body><div>'' @
          ''<h2>General Observations</h2><ul><li>Good naming</li></ul>'' @
          ''<h2>Specific Comments</h2><ul><li><strong>line 3:</strong> a < b & c is <b>odd</b></li></ul>'' @
          ''<h2>Improvement Suggestions</h2><ul><li>Add tests</li></ul>'' @
          ''</div></body></html>'')) \<and>
   files world_example [''out'', ''code_review.html''] = Some ''old report'' \<and>
   (\<exists>w1 w2.
      generate_report platform_example xml_example [''out''] world_example = (Inr (), w1) \<and>
      dirs w1 = dirs world_example \<and>
      files w1 [''out'', ''code_review.html''] =
        Some (''<html><body><div><h2>General Observations</h2><ul><li>Good naming</li></ul>'' @
          ''<h2>Specific Comments</h2><ul></ul>'' @
          ''<h2>Improvement Suggestions</h2><ul><li>Add tests</li></ul></div></body></html>'') \<and>
      generate_report platform_example xml_commented [''out''] w1 = (Inr (), w2) \<and>
      files w2 [''out'', ''code_review.html''] =
        Some (''<html><body><div>'' @
          ''<h2>General Observations</h2><ul><li>Good naming</li></ul>'' @
          ''<h2>Specific Comments</h2><ul><li><strong>line 3:</strong> a < b & c is <b>odd</b></li></ul>'' @
          ''<h2>Improvement Suggestions</h2><ul><li>Add tests</li></ul>'' @
          ''</div></body></html>''))"
proof -
  have p1: "fromstring platform_example xml_example = Inr review_example"
    by (simp add: platform_example_def parse_example)
  have p2: "fromstring platform_example xml_commented = Inr review_commented"
    by (simp add: platform_example_def parse_commented)
  note t = template_example
  note h1 = add_content_to_html_example
  note h2 = html_commented
  have absent: "[''reports'', ''2024''] \<notin> dirs world_example" by (simp add: world_example_def)
  have old: "files world_example [''out'', ''code_review.html''] = Some ''old report''"
    by (simp add: world_example_def)
  have present: "[''out''] \<in> dirs world_example" by (simp add: world_example_def)
  have ne1: "[''reports'', ''2024''] \<noteq> []" and ne2: "[''out''] \<noteq> []" by simp_all
  have nf1: "\<forall>q \<in> set (prefixes [''reports'', ''2024'']). files world_example q = None"
    unfolding prefixes_reports by (simp add: world_example_def)
  have nd1: "join [''reports'', ''2024''] ''code_review.html'' \<notin> dirs world_example"
    by (simp add: world_example_def join_def)
  have nf2: "\<forall>q \<in> set (prefixes [''out'']). files world_example q = None"
    by (simp add: world_example_def)
  have nd2: "join [''out''] ''code_review.html'' \<notin> dirs world_example"
    by (simp add: world_example_def join_def)
  have a: "\<exists>w1 w2.
      generate_report platform_example xml_example [''reports'', ''2024''] world_example = (Inr (), w1) \<and>
      [''reports''] \<in> dirs w1 \<and> [''reports'', ''2024''] \<in> dirs w1 \<and>
      files w1 [''reports'', ''2024'', ''code_review.html''] =
        Some (''<html><body><div><h2>General Observations</h2><ul><li>Good naming</li></ul>'' @
          ''<h2>Specific Comments</h2><ul></ul>'' @
          ''<h2>Improvement Suggestions</h2><ul><li>Add tests</li></ul></div></body></html>'') \<and>
      generate_report platform_example xml_commented [''reports'', ''2024''] w1 = (Inr (), w2) \<and>
      files w2 [''reports'', ''2024'', ''code_review.html''] =
        Some (''<html><body><div>'' @
          ''<h2>General Observations</h2><ul><li>Good naming</li></ul>'' @
          ''<h2>Specific Comments</h2><ul><li><strong>line 3:</strong> a < b & c is <b>odd</b></li></ul>'' @
          ''<h2>Improvement Suggestions</h2><ul><li>Add tests</li></ul>'' @
          ''</div></body></html>'')"
  proof -
    from generate_report_writes[OF p1 t h1 p2 h2 ne1 nf1 nd1]
    obtain w1 w2 where
      g1: "generate_report platform_example xml_example [''reports'', ''2024''] world_example = (Inr (), w1)"
      and d1: "dirs w1 = (if [''reports'', ''2024''] \<in> dirs world_example then dirs world_example
                 else dirs world_example \<union> set (prefixes [''reports'', ''2024'']))"
      and f1: "files w1 = (files world_example)(join [''reports'', ''2024''] ''code_review.html'' \<mapsto>
          ''<html><body><div><h2>General Observations</h2><ul><li>Good naming</li></ul>'' @
          ''<h2>Specific Comments</h2><ul></ul>'' @
          ''<h2>Improvement Suggestions</h2><ul><li>Add tests</li></ul></div></body></html>'')"
      and g2: "generate_report platform_example xml_commented [''reports'', ''2024''] w1 = (Inr (), w2)"
      and f2: "files w2 = (files world_example)(join [''reports'', ''2024''] ''code_review.html'' \<mapsto>
          ''<html><body><div>'' @
          ''<h2>General Observations</h2><ul><li>Good naming</li></ul>'' @
          ''<h2>Specific Comments</h2><ul><li><strong>line 3:</strong> a < b & c is <b>odd</b></li></ul>'' @
          ''<h2>Improvement Suggestions</h2><ul><li>Add tests</li></ul>'' @
          ''</div></body></html>'')"
      by blast
    have m: "[''reports''] \<in> dirs w1" "[''reports'', ''2024''] \<in> dirs w1"
      unfolding d1 prefixes_reports using absent by simp_all
    have c1: "files w1 [''reports'', ''2024'', ''code_review.html''] =
        Some (''<html><body><div><h2>General Observations</h2><ul><li>Good naming</li></ul>'' @
          ''<h2>Specific Comments</h2><ul></ul>'' @
          ''<h2>Improvement Suggestions</h2><ul><li>Add tests</li></ul></div></body></html>'')"
      unfolding f1 by (simp add: join_def)
    have c2: "files w2 [''reports'', ''2024'', ''code_review.html''] =
        Some (''<html><body><div>'' @
          ''<h2>General Observations</h2><ul><li>Good naming</li></ul>'' @
          ''<h2>Specific Comments</h2><ul><li><strong>line 3:</strong> a < b & c is <b>odd</b></li></ul>'' @
          ''<h2>Improvement Suggestions</h2><ul><li>Add tests</li></ul>'' @
          ''</div></body></html>'')"
      unfolding f2 by (simp add: join_def)
    show ?thesis using g1 m c1 g2 c2 by blast
  qed
  have b: "\<exists>w1 w2.
      generate_report platform_example xml_example [''out''] world_example = (Inr (), w1) \<and>
      dirs w1 = dirs world_example \<and>
      files w1 [''out'', ''code_review.html''] =
        Some (''<html><body><div><h2>General Observations</h2><ul><li>Good naming</li></ul>'' @
          ''<h2>Specific Comments</h2><ul></ul>'' @
          ''<h2>Improvement Suggestions</h2><ul><li>Add tests</li></ul></div></body></html>'') \<and>
      generate_report platform_example xml_commented [''out''] w1 = (Inr (), w2) \<and>
      files w2 [''out'', ''code_review.html''] =
        Some (''<html><body><div>'' @
          ''<h2>General Observations</h2><ul><li>Good naming</li></ul>'' @
          ''<h2>Specific Comments</h2><ul><li><strong>line 3:</strong> a < b & c is <b>odd</b></li></ul>'' @
          ''<h2>Improvement Suggestions</h2><ul><li>Add tests</li></ul>'' @
          ''</div></body></html>'')"
  proof -
    from generate_report_writes[OF p1 t h1 p2 h2 ne2 nf2 nd2]
    obtain w1 w2 where
      g1: "generate_report platform_example xml_example [''out''] world_example = (Inr (), w1)"
      and d1: "dirs w1 = (if [''out''] \<in> dirs world_example then dirs world_example
                 else dirs world_example \<union> set (prefixes [''out'']))"
      and f1: "files w1 = (files world_example)(join [''out''] ''code_review.html'' \<mapsto>
          ''<html><body><div><h2>General Observations</h2><ul><li>Good naming</li></ul>'' @
          ''<h2>Specific Comments</h2><ul></ul>'' @
          ''<h2>Improvement Suggestions</h2><ul><li>Add tests</li></ul></div></body></html>'')"
      and g2: "generate_report platform_example xml_commented [''out''] w1 = (Inr (), w2)"
      and f2: "files w2 = (files world_example)(join [''out''] ''code_review.html'' \<mapsto>
          ''<html><body><div>'' @
          ''<h2>General Observations</h2><ul><li>Good naming</li></ul>'' @
          ''<h2>Specific Comments</h2><ul><li><strong>line 3:</strong> a < b & c is <b>odd</b></li></ul>'' @
          ''<h2>Improvement Suggestions</h2><ul><li>Add tests</li></ul>'' @
          ''</div></body></html>'')"
      by blast
    have m: "dirs w1 = dirs world_example" unfolding d1 using present by simp
    have c1: "files w1 [''out'', ''code_review.html''] =
        Some (''<html><body><div><h2>General Observations</h2><ul><li>Good naming</li></ul>'' @
          ''<h2>Specific Comments</h2><ul></ul>'' @
          ''<h2>Improvement Suggestions</h2><ul><li>Add tests</li></ul></div></body></html>'')"
      unfolding f1 by (simp add: join_def)
    have c2: "files w2 [''out'', ''code_review.html''] =
        Some (''<html><body><div>'' @
          ''<h2>General Observations</h2><ul><li>Good naming</li></ul>'' @
          ''<h2>Specific Comments</h2><ul><li><strong>line 3:</strong> a < b & c is <b>odd</b></li></ul>'' @
          ''<h2>Improvement Suggestions</h2><ul><li>Add tests</li></ul>'' @
          ''</div></body></html>'')"
      unfolding f2 by (simp add: join_def)
    show ?thesis using g1 m c1 g2 c2 by blast
  qed
  show ?thesis using absent a old b by blast
qed

theorem generate_report_blocked_counterexample:
  "fromstring platform_example xml_commented = Inr review_commented \<and>
   open_read world_example (html_template_path platform_example) = Inr ''<html><body><div>'' \<and>
   files world_example [''in.py''] = Some ''x = 1\<newline>'' \<and>
   generate_report platform_example xml_commented [''in.py''] world_example
     = (Inl NotADirectoryError, world_example) \<and>
   files world_example (join [''in.py''] ''code_review.html'') = None \<and>
   [''in.py'', ''reports''] \<notin> dirs world_example \<and>
   generate_report platform_example xml_commented [''in.py'', ''reports''] world_example
     = (Inl NotADirectoryError, world_example) \<and>
   generate_report platform_example xml_commented [] world_example
     = (Inl (FileNotFoundError ''''), world_example) \<and>
   files world_example (join [] ''code_review.html'') = None \<and>
   open_read world_blocked (html_template_path platform_example) = Inr ''<html><body><div>'' \<and>
   [''site''] \<in> dirs world_blocked \<and>
   join [''site''] ''code_review.html'' \<in> dirs world_blocked \<and>
   generate_report platform_example xml_commented [''site''] world_blocked
     = (Inl IsADirectoryError, world_blocked)"
proof -
  have p: "fromstring platform_example xml_commented = Inr review_commented"
    by (simp add: platform_example_def parse_commented)
  have f: "files world_example [''in.py''] = Some ''x = 1\<newline>''"
    "files world_example (join [''in.py''] ''code_review.html'') = None"
    "[''in.py'', ''reports''] \<notin> dirs world_example"
    "[''in.py''] \<notin> dirs world_example"
    "[''in.py'', ''code_review.html''] \<notin> dirs world_example"
    "files world_example (join [] ''code_review.html'') = None"
    by (simp_all add: world_example_def join_def)
  have b: "[''site''] \<in> dirs world_blocked"
    "join [''site''] ''code_review.html'' \<in> dirs world_blocked"
    by (simp_all add: world_blocked_def join_def)
  have g1: "generate_report platform_example xml_commented [''in.py''] world_example
     = (Inl NotADirectoryError, world_example)"
    unfolding generate_report_rendered[OF p template_example html_commented]
    using f by (simp add: path_exists_def open_write_def join_def)
  have g2: "generate_report platform_example xml_commented [''in.py'', ''reports''] world_example
     = (Inl NotADirectoryError, world_example)"
    unfolding generate_report_rendered[OF p template_example html_commented]
    by (simp add: path_exists_def makedirs_def world_example_def)
  have g3: "generate_report platform_example xml_commented [] world_example
     = (Inl (FileNotFoundError ''''), world_example)"
    unfolding generate_report_rendered[OF p template_example html_commented]
    by (simp add: path_exists_def makedirs_def)
  have g4: "generate_report platform_example xml_commented [''site''] world_blocked
     = (Inl IsADirectoryError, world_blocked)"
    unfolding generate_report_rendered[OF p template_blocked html_commented]
    using b by (simp add: path_exists_def open_write_def)
  show ?thesis using p template_example template_blocked f b g1 g2 g3 g4 by simp
qed

end
